theory Spec2Isabelle
  imports Complex_Main "HOL-Library.Sublist" "HOL-Library.Multiset" "HOL-Library.Word"
begin

unbundle bit_operations_syntax

section \<open>Status codes and exceptions\<close>

text \<open>
  The status values that \<^verbatim>\<open>faiss_hnsw.cc\<close> returns. A call into the underlying
  library either returns a value or throws a \<^verbatim>\<open>std::exception\<close>; the exception carries
  the result of \<^verbatim>\<open>e.what()\<close>, a C string that may be the null pointer.
\<close>

datatype Status =
    success
  | empty_index
  | index_not_trained
  | invalid_args
  | invalid_metric_type
  | invalid_binary_set
  | invalid_serialized_index_type
  | invalid_index_error
  | not_implemented
  | faiss_inner_error

datatype 'a attempt = Returned 'a | Thrown "string option"

section \<open>Recognising the fourCC error (\<^verbatim>\<open>is_faiss_fourcc_error\<close>)\<close>

text \<open>
  \<^verbatim>\<open>std::string::find(pat)\<close> gives the position of the first occurrence of \<^verbatim>\<open>pat\<close>, or
  \<^verbatim>\<open>npos\<close> (here \<open>None\<close>) when there is none.
\<close>

fun starts_with :: "string \<Rightarrow> string \<Rightarrow> bool" where
  "starts_with [] s = True"
| "starts_with (p # ps) [] = False"
| "starts_with (p # ps) (c # cs) = (p = c \<and> starts_with ps cs)"

fun str_find :: "string \<Rightarrow> string \<Rightarrow> nat option" where
  "str_find pat [] = (if pat = [] then Some 0 else None)"
| "str_find pat (c # cs) =
     (if starts_with pat (c # cs) then Some 0 else map_option Suc (str_find pat cs))"

definition is_faiss_fourcc_error :: "string option \<Rightarrow> bool" where
  "is_faiss_fourcc_error what =
     (case what of
        None \<Rightarrow> False
      | Some error_msg \<Rightarrow>
          str_find ''Index type'' error_msg \<noteq> None \<and>
          str_find ''not recognized'' error_msg \<noteq> None)"

section \<open>\<^verbatim>\<open>Deserialize\<close> and \<^verbatim>\<open>DeserializeFromFile\<close>\<close>

text \<open>
  The node keeps a vector of sub-indexes; a null pointer is \<open>None\<close>. The reads of the
  underlying library (\<^verbatim>\<open>read_is_mv\<close>, \<^verbatim>\<open>readHeader\<close>, \<^verbatim>\<open>read_index\<close>) are given by their
  outcomes: \<open>is_mv\<close> for the discriminator, \<open>hdr\<close> for the header (the number of
  sub-indexes), \<open>rd i\<close> for the \<open>i\<close>-th sub-index of an MV stream and \<open>rd1\<close> for the
  index of a single-index stream.
\<close>

definition resize :: "nat \<Rightarrow> 'a \<Rightarrow> 'a list \<Rightarrow> 'a list" where
  "resize n d xs = take n xs @ replicate (n - length xs) d"

text \<open>The loop \<^verbatim>\<open>for (i = 0; i < v; ++i) indexes[i].reset(read_index(...))\<close>.\<close>

fun read_mv_indexes ::
  "(nat \<Rightarrow> 'i attempt) \<Rightarrow> nat \<Rightarrow> nat \<Rightarrow> 'i option list \<Rightarrow> unit attempt \<times> 'i option list" where
  "read_mv_indexes rd i 0 indexes = (Returned (), indexes)"
| "read_mv_indexes rd i (Suc n) indexes =
     (case rd i of
        Thrown w \<Rightarrow> (Thrown w, indexes)
      | Returned ix \<Rightarrow> read_mv_indexes rd (Suc i) n (indexes[i := Some ix]))"

text \<open>The body of the \<^verbatim>\<open>try\<close> block of \<^verbatim>\<open>Deserialize\<close>.\<close>

definition Deserialize_try ::
  "bool attempt \<Rightarrow> nat attempt \<Rightarrow> (nat \<Rightarrow> 'i attempt) \<Rightarrow> 'i attempt \<Rightarrow> 'i option list
   \<Rightarrow> unit attempt \<times> 'i option list" where
  "Deserialize_try is_mv hdr rd rd1 indexes =
     (case is_mv of
        Thrown w \<Rightarrow> (Thrown w, indexes)
      | Returned True \<Rightarrow>
          (case hdr of
             Thrown w \<Rightarrow> (Thrown w, indexes)
           | Returned v \<Rightarrow> read_mv_indexes rd 0 v (resize v None indexes))
      | Returned False \<Rightarrow>
          (case rd1 of
             Thrown w \<Rightarrow> (Thrown w, indexes)
           | Returned ix \<Rightarrow> (Returned (), indexes[0 := Some ix])))"

text \<open>The \<^verbatim>\<open>catch (const std::exception& e)\<close> block shared by both functions.\<close>

definition catch_status :: "string option \<Rightarrow> Status" where
  "catch_status what =
     (if is_faiss_fourcc_error what then invalid_serialized_index_type else faiss_inner_error)"

definition Deserialize ::
  "bool \<Rightarrow> bool attempt \<Rightarrow> nat attempt \<Rightarrow> (nat \<Rightarrow> 'i attempt) \<Rightarrow> 'i attempt \<Rightarrow> 'i option list
   \<Rightarrow> Status \<times> 'i option list" where
  "Deserialize has_binary is_mv hdr rd rd1 indexes =
     (if \<not> has_binary then (invalid_binary_set, indexes)
      else
        (case Deserialize_try is_mv hdr rd rd1 indexes of
           (Thrown w, indexes') \<Rightarrow> (catch_status w, indexes')
         | (Returned u, indexes') \<Rightarrow> (success, indexes')))"

text \<open>
  \<^verbatim>\<open>DeserializeFromFile\<close>: the discriminator is first read from the file by name
  (\<open>is_mv\<close>); on an MV file the reader (memory-mapped or not, by \<^verbatim>\<open>enable_mmap\<close>) is
  opened (\<open>opened\<close>), the discriminator is read again from it (\<open>is_mv2\<close>), then the header
  and the sub-indexes.
\<close>

definition DeserializeFromFile_try ::
  "bool attempt \<Rightarrow> unit attempt \<Rightarrow> bool attempt \<Rightarrow> nat attempt \<Rightarrow> (nat \<Rightarrow> 'i attempt)
   \<Rightarrow> 'i attempt \<Rightarrow> 'i option list \<Rightarrow> unit attempt \<times> 'i option list" where
  "DeserializeFromFile_try is_mv opened is_mv2 hdr rd rd1 indexes =
     (case is_mv of
        Thrown w \<Rightarrow> (Thrown w, indexes)
      | Returned True \<Rightarrow>
          (case opened of
             Thrown w \<Rightarrow> (Thrown w, indexes)
           | Returned u \<Rightarrow>
               (case is_mv2 of
                  Thrown w \<Rightarrow> (Thrown w, indexes)
                | Returned b \<Rightarrow>
                    (case hdr of
                       Thrown w \<Rightarrow> (Thrown w, indexes)
                     | Returned v \<Rightarrow> read_mv_indexes rd 0 v (resize v None indexes))))
      | Returned False \<Rightarrow>
          (case rd1 of
             Thrown w \<Rightarrow> (Thrown w, indexes)
           | Returned ix \<Rightarrow> (Returned (), indexes[0 := Some ix])))"

definition DeserializeFromFile ::
  "bool attempt \<Rightarrow> unit attempt \<Rightarrow> bool attempt \<Rightarrow> nat attempt \<Rightarrow> (nat \<Rightarrow> 'i attempt)
   \<Rightarrow> 'i attempt \<Rightarrow> 'i option list \<Rightarrow> Status \<times> 'i option list" where
  "DeserializeFromFile is_mv opened is_mv2 hdr rd rd1 indexes =
     (case DeserializeFromFile_try is_mv opened is_mv2 hdr rd rd1 indexes of
        (Thrown w, indexes') \<Rightarrow> (catch_status w, indexes')
      | (Returned u, indexes') \<Rightarrow> (success, indexes'))"

text \<open>What the claim calls "the message indicates an unrecognized index type".\<close>

definition unrecognized_index_type :: "string option \<Rightarrow> bool" where
  "unrecognized_index_type what =
     (case what of
        None \<Rightarrow> False
      | Some msg \<Rightarrow> sublist ''Index type'' msg \<and> sublist ''not recognized'' msg)"

section \<open>The data model of the index node\<close>

type_synonym u32 = "32 word"

datatype DataFormatEnum = bin1 | fp16 | fp32 | bf16 | int8 | sparse_u32_f32

datatype QuantizerType =
    QT_8bit | QT_4bit | QT_8bit_uniform | QT_4bit_uniform | QT_fp16
  | QT_8bit_direct | QT_6bit | QT_bf16 | QT_8bit_direct_signed

text \<open>
  The classes of the underlying library that the source tells apart with
  \<^verbatim>\<open>dynamic_cast\<close>. The flag of a storage says whether it is the cosine variant
  (\<^verbatim>\<open>IndexFlatCosine\<close> derives from \<^verbatim>\<open>IndexFlat\<close>, and so on; the cosine variants are
  the ones that implement \<^verbatim>\<open>HasInverseL2Norms\<close>). Pointers to a storage, a base index
  or a refine index may be null (\<open>None\<close>).
\<close>

datatype faiss_Index =
    IndexFlat bool
  | IndexScalarQuantizer QuantizerType bool
  | IndexPQ bool
  | IndexProductResidualQuantizer bool
  | IndexHNSW "faiss_Index option"
  | IndexRefine "faiss_Index option" "faiss_Index option"

record sub_index =
  kind :: faiss_Index
  is_trained :: bool
  ntotal :: int

record node =
  indexes :: "sub_index option list"
  labels :: "u32 list list"
  index_rows_sum :: "u32 list"
  label_to_internal_offset :: "u32 list"
  internal_offset_to_most_external_id :: "u32 list"
  data_format :: DataFormatEnum
  tmp_combined_scalar_ids :: "nat list list"

text \<open>
  The constructor \<^verbatim>\<open>BaseFaissRegularIndexNode(version, object)\<close> creates
  \<^verbatim>\<open>indexes(1, nullptr)\<close> and leaves every other vector empty.
\<close>

definition new_node :: "DataFormatEnum \<Rightarrow> node" where
  "new_node df =
     \<lparr>indexes = [None], labels = [], index_rows_sum = [], label_to_internal_offset = [],
      internal_offset_to_most_external_id = [], data_format = df,
      tmp_combined_scalar_ids = []\<rparr>"

definition isIndexEmpty :: "node \<Rightarrow> bool" where
  "isIndexEmpty nd = (indexes nd = [] \<or> None \<in> set (indexes nd))"

text \<open>
  Class \<^verbatim>\<open>BitsetView\<close> is declared outside this file; a view is given by what its
  accessors return. A set bit filters a row out: the source calls
  \<^verbatim>\<open>count() == size()\<close> "all data is filtered" and uses \<^verbatim>\<open>size() - count()\<close> as the
  number of rows that pass the filter.
\<close>

record BitsetView =
  bs_empty :: bool
  bs_size :: nat
  bs_count :: nat
  bs_first_valid_index :: nat
  bs_has_out_ids :: bool
  bs_filter_ratio :: real

text \<open>Subtraction of two \<^verbatim>\<open>size_t\<close> values (64 bits, wrapping).\<close>

definition size_t_sub :: "nat \<Rightarrow> nat \<Rightarrow> nat" where
  "size_t_sub a b = (if b \<le> a then a - b else a + 2 ^ 64 - b)"

definition passing_count :: "BitsetView \<Rightarrow> nat" where
  "passing_count bitset = size_t_sub (bs_size bitset) (bs_count bitset)"

text \<open>
  \<^verbatim>\<open>std::upper_bound\<close> and \<^verbatim>\<open>std::lower_bound\<close> on a non-decreasing range: the position
  of the first element greater than (not less than) the value, the length of the range
  when there is none.
\<close>

definition upper_bound :: "nat list \<Rightarrow> nat \<Rightarrow> nat" where
  "upper_bound xs v = length (takeWhile (\<lambda>x. x \<le> v) xs)"

definition lower_bound :: "nat list \<Rightarrow> nat \<Rightarrow> nat" where
  "lower_bound xs v = length (takeWhile (\<lambda>x. x < v) xs)"

definition nth_opt :: "'a list \<Rightarrow> nat \<Rightarrow> 'a option" where
  "nth_opt xs i = (if i < length xs then Some (xs ! i) else None)"

section \<open>Choosing the partition to search (\<^verbatim>\<open>getIndexToSearchByScalarInfo\<close>)\<close>

text \<open>
  The offset that the first valid bit resolves to: the bit's position itself when the
  view has out ids, \<^verbatim>\<open>label_to_internal_offset[first_valid_index]\<close> otherwise. Reading
  the vector out of range is undefined in the source: \<open>None\<close>.
\<close>

definition first_valid_offset :: "node \<Rightarrow> BitsetView \<Rightarrow> nat option" where
  "first_valid_offset nd bitset =
     (if bs_has_out_ids bitset then Some (bs_first_valid_index bitset)
      else map_option unat
             (nth_opt (label_to_internal_offset nd) (bs_first_valid_index bitset)))"

text \<open>
  The result is the \<^verbatim>\<open>int\<close> of the source (\<open>-1\<close>: no partition), \<open>None\<close> when undefined.
  When no element of \<^verbatim>\<open>index_rows_sum\<close> exceeds the offset, the warning that is logged
  before \<open>-1\<close> is returned reads \<^verbatim>\<open>label_to_internal_offset[first_valid_index]\<close> at the
  offset, which is undefined when the offset is out of the range of that vector.
\<close>

definition getIndexToSearchByScalarInfo :: "node \<Rightarrow> BitsetView \<Rightarrow> int option" where
  "getIndexToSearchByScalarInfo nd bitset =
     (if length (indexes nd) = 1 then Some 0
      else if bs_empty bitset then Some (- 1)
      else if bs_count bitset = bs_size bitset then Some 0
      else
        (case first_valid_offset nd bitset of
           None \<Rightarrow> None
         | Some first_valid_index \<Rightarrow>
             (let it = upper_bound (map unat (index_rows_sum nd)) first_valid_index
              in if it = length (index_rows_sum nd)
                 then (case nth_opt (label_to_internal_offset nd) first_valid_index of
                         None \<Rightarrow> None
                       | Some logged \<Rightarrow> Some (- 1))
                 else Some (int it - 1))))"

text \<open>
  The lines that \<^verbatim>\<open>Search\<close>, \<^verbatim>\<open>CalcDistByIDs\<close>, \<^verbatim>\<open>RangeSearch\<close> and \<^verbatim>\<open>AnnIterator\<close>
  all run on the view before anything else:
  \<^verbatim>\<open>index_id = getIndexToSearchByScalarInfo(bitset); if (index_id < 0) return Err(invalid_args, ...)\<close>.
  \<open>Inr index_id\<close> is the partition the operation goes on with.
\<close>

definition partition_to_search :: "node \<Rightarrow> BitsetView \<Rightarrow> (Status + nat) option" where
  "partition_to_search nd bitset =
     (case getIndexToSearchByScalarInfo nd bitset of
        None \<Rightarrow> None
      | Some index_id \<Rightarrow>
          if index_id < 0 then Some (Inl invalid_args) else Some (Inr (nat index_id)))"

text \<open>
  A two-partition index over five rows: labels 1 and 3 in partition 0, labels 0, 2 and 4
  in partition 1.
\<close>

definition mv_example :: node where
  "mv_example =
     \<lparr>indexes = [Some \<lparr>kind = IndexHNSW (Some (IndexFlat False)), is_trained = True, ntotal = 2\<rparr>,
                 Some \<lparr>kind = IndexHNSW (Some (IndexFlat False)), is_trained = True, ntotal = 3\<rparr>],
      labels = [[1, 3], [0, 2, 4]], index_rows_sum = [0, 2, 5],
      label_to_internal_offset = [2, 0, 3, 1, 4],
      internal_offset_to_most_external_id = [], data_format = fp32,
      tmp_combined_scalar_ids = [[1], [0]]\<rparr>"

section \<open>Declarations from outside the file\<close>

text \<open>
  What the file uses and other headers declare: the rounding of a real number to single
  precision (\<open>to_float\<close>), the constants
  \<^verbatim>\<open>HnswSearchThresholds::kHnswSearchKnnBFFilterThreshold\<close> and \<^verbatim>\<open>kIteratorSeedEf\<close>,
  \<^verbatim>\<open>IsMetricType\<close> with the metric names \<^verbatim>\<open>metric::IP\<close> and \<^verbatim>\<open>metric::COSINE\<close>, and the two setters of \<^verbatim>\<open>BitsetView\<close>
  (\<^verbatim>\<open>set_out_ids(out_ids, num_internal_ids, num_filtered_out_ids)\<close>, whose last argument
  is optional, and \<^verbatim>\<open>set_id_offset\<close>).
\<close>

record externals =
  to_float :: "real \<Rightarrow> real"
  kHnswSearchKnnBFFilterThreshold :: real
  kIteratorSeedEf :: int
  IsMetricType :: "string \<Rightarrow> string \<Rightarrow> bool"
  metric_IP :: string
  metric_COSINE :: string
  set_out_ids :: "u32 list \<Rightarrow> nat \<Rightarrow> nat option \<Rightarrow> BitsetView \<Rightarrow> BitsetView"
  set_id_offset :: "nat \<Rightarrow> BitsetView \<Rightarrow> BitsetView"

text \<open>The options of \<^verbatim>\<open>FaissHnswConfig\<close> that the modelled functions read.\<close>

record FaissHnswConfig =
  metric_type :: string
  k :: nat
  ef :: "int option"
  refine_k :: "real option"
  iterator_refine_ratio :: "real option"
  trace_visit :: bool
  radius :: real
  range_filter :: real

text \<open>\<^verbatim>\<open>std::numeric_limits<float>::max()\<close>, the largest finite single-precision value.\<close>

definition FLT_MAX :: real where
  "FLT_MAX = (2 - 1 / 2 ^ 23) * 2 ^ 127"

section \<open>The iterator (\<^verbatim>\<open>FaissHnswIterator\<close>) and \<^verbatim>\<open>AnnIterator\<close>\<close>

datatype refine_computer = with_cosine_norm | as_is

text \<open>
  The fields of the iterator and of its workspace that the constructor sets. The first
  two are the arguments it hands to the constructor of the base class
  \<^verbatim>\<open>IndexIterator(larger_is_closer, use_knowhere_search_pool, refine_ratio)\<close>;
  \<open>qdis_refine = None\<close> is the null pointer.
\<close>

record FaissHnswIterator =
  larger_is_closer :: bool
  refine_ratio :: real
  it_index :: sub_index
  it_labels :: "u32 list option"
  mv_base_offset :: u32
  accumulated_alpha :: real
  qdis_refine :: "refine_computer option"
  efSearch :: int
  ws_bitset :: BitsetView
  initial_search_done :: bool

text \<open>\<^verbatim>\<open>dynamic_cast<const faiss::HasInverseL2Norms*>(storage) != nullptr\<close>.\<close>

fun has_inverse_l2_norms :: "faiss_Index option \<Rightarrow> bool" where
  "has_inverse_l2_norms (Some (IndexFlat c)) = c"
| "has_inverse_l2_norms (Some (IndexScalarQuantizer q c)) = c"
| "has_inverse_l2_norms (Some (IndexPQ c)) = c"
| "has_inverse_l2_norms (Some (IndexProductResidualQuantizer c)) = c"
| "has_inverse_l2_norms _ = False"

text \<open>
  The comparison \<^verbatim>\<open>bitset_in.count() >= (index->ntotal * kHnswSearchKnnBFFilterThreshold)\<close>
  is done in single precision: the count and \<^verbatim>\<open>ntotal\<close> are converted, the product is
  rounded.
\<close>

definition initial_accumulated_alpha :: "externals \<Rightarrow> BitsetView \<Rightarrow> int \<Rightarrow> real" where
  "initial_accumulated_alpha ext bitset_in n =
     (if to_float ext (to_float ext (real_of_int n) * kHnswSearchKnnBFFilterThreshold ext)
           \<le> to_float ext (real (bs_count bitset_in))
      then FLT_MAX else 1)"

text \<open>
  The constructor. \<open>None\<close>: the \<^verbatim>\<open>throw;\<close> of the source, reached when the index (or
  the base of a refine index) is no \<^verbatim>\<open>IndexHNSW\<close>.
\<close>

definition new_FaissHnswIterator ::
  "externals \<Rightarrow> sub_index \<Rightarrow> u32 list option \<Rightarrow> BitsetView \<Rightarrow> int \<Rightarrow> bool \<Rightarrow> real \<Rightarrow> u32
   \<Rightarrow> FaissHnswIterator option" where
  "new_FaissHnswIterator ext index_in labels_in bitset_in ef_in larger refine_ratio_in
     mv_base_offset_in =
     (let it = \<lparr>larger_is_closer = larger, refine_ratio = refine_ratio_in,
                 it_index = index_in, it_labels = labels_in,
                 mv_base_offset = mv_base_offset_in,
                 accumulated_alpha = initial_accumulated_alpha ext bitset_in (ntotal index_in),
                 qdis_refine = None, efSearch = ef_in, ws_bitset = bitset_in,
                 initial_search_done = False\<rparr>
      in case kind index_in of
           IndexRefine base_index refine_index \<Rightarrow>
             (case base_index of
                Some (IndexHNSW storage) \<Rightarrow>
                  Some (it\<lparr>qdis_refine :=
                    (if refine_ratio_in \<noteq> 0
                     then (if has_inverse_l2_norms storage then Some with_cosine_norm
                           else Some as_is)
                     else None)\<rparr>)
              | _ \<Rightarrow> None)
         | IndexHNSW storage \<Rightarrow> Some it
         | _ \<Rightarrow> None)"

definition is_ann_iterator_supported :: "node \<Rightarrow> bool" where
  "is_ann_iterator_supported nd =
     (\<not> (data_format nd \<noteq> fp32 \<and> data_format nd \<noteq> fp16 \<and> data_format nd \<noteq> bf16))"

text \<open>
  The block that \<^verbatim>\<open>Search\<close>, \<^verbatim>\<open>RangeSearch\<close> and \<^verbatim>\<open>AnnIterator\<close> run on the view of an
  index with more than one partition, after the partition is chosen.
\<close>

definition mv_bitset :: "externals \<Rightarrow> node \<Rightarrow> nat \<Rightarrow> BitsetView \<Rightarrow> BitsetView option" where
  "mv_bitset ext nd index_id bitset =
     (case nth_opt (labels nd) index_id of
        None \<Rightarrow> None
      | Some ls \<Rightarrow>
          (let num_mv_ids = length ls;
               num_mv_filtered_out_ids =
                 size_t_sub num_mv_ids (size_t_sub (bs_size bitset) (bs_count bitset))
           in if \<not> bs_has_out_ids bitset
              then Some (set_out_ids ext ls num_mv_ids (Some num_mv_filtered_out_ids) bitset)
              else map_option
                     (\<lambda>base. set_id_offset ext (unat base)
                        (set_out_ids ext (internal_offset_to_most_external_id nd) num_mv_ids
                           (Some num_mv_filtered_out_ids) bitset))
                     (nth_opt (index_rows_sum nd) index_id)))"

text \<open>The view with the out ids of the node, when the node has them.\<close>

definition node_bitset :: "externals \<Rightarrow> node \<Rightarrow> BitsetView \<Rightarrow> BitsetView" where
  "node_bitset ext nd bitset0 =
     (if internal_offset_to_most_external_id nd \<noteq> []
      then set_out_ids ext (internal_offset_to_most_external_id nd)
             (length (internal_offset_to_most_external_id nd)) None bitset0
      else bitset0)"

fun is_IndexRefine :: "faiss_Index \<Rightarrow> bool" where
  "is_IndexRefine (IndexRefine b r) = True"
| "is_IndexRefine _ = False"

text \<open>
  The body of the loop over the queries in \<^verbatim>\<open>AnnIterator\<close> (the query vector itself,
  which is copied, plays no part here).
\<close>

definition ann_iterator_for_query ::
  "externals \<Rightarrow> node \<Rightarrow> FaissHnswConfig \<Rightarrow> nat \<Rightarrow> sub_index \<Rightarrow> BitsetView \<Rightarrow> bool \<Rightarrow> int
   \<Rightarrow> FaissHnswIterator option" where
  "ann_iterator_for_query ext nd cfg index_id ix bitset larger ef_in =
     (let should_use_refine = is_IndexRefine (kind ix);
          iterator_refine_ratio_in =
            (if should_use_refine
             then (case iterator_refine_ratio cfg of None \<Rightarrow> 1 / 2 | Some r \<Rightarrow> r)
             else 0);
          mv_base_offset_in =
            (if index_id < length (index_rows_sum nd) then index_rows_sum nd ! index_id else 0)
      in if labels nd = []
         then new_FaissHnswIterator ext ix None bitset ef_in larger iterator_refine_ratio_in
                mv_base_offset_in
         else (case nth_opt (labels nd) index_id of
                 None \<Rightarrow> None
               | Some ls \<Rightarrow>
                   new_FaissHnswIterator ext ix (Some ls) bitset ef_in larger
                     iterator_refine_ratio_in mv_base_offset_in))"

text \<open>
  \<^verbatim>\<open>AnnIterator\<close> for \<open>n_queries\<close> queries, from the point where the partition
  \<open>index_id\<close> is chosen. \<open>None\<close>: the source reads a vector out of range or reaches a
  \<^verbatim>\<open>throw;\<close>.
\<close>

definition AnnIterator_on_partition ::
  "externals \<Rightarrow> node \<Rightarrow> FaissHnswConfig \<Rightarrow> nat \<Rightarrow> BitsetView \<Rightarrow> nat
   \<Rightarrow> (Status + FaissHnswIterator list) option" where
  "AnnIterator_on_partition ext nd cfg n_queries bitset index_id =
     (case (if 1 < length (indexes nd) then mv_bitset ext nd index_id bitset
            else Some bitset) of
        None \<Rightarrow> None
      | Some bitset' \<Rightarrow>
          (let is_cosine = IsMetricType ext (metric_type cfg) (metric_COSINE ext);
               larger = (IsMetricType ext (metric_type cfg) (metric_IP ext) \<or> is_cosine);
               ef_in = (case ef cfg of None \<Rightarrow> kIteratorSeedEf ext | Some e \<Rightarrow> e)
           in case nth_opt (indexes nd) index_id of
                Some (Some ix) \<Rightarrow>
                  map_option Inr
                    (those (map (\<lambda>i. ann_iterator_for_query ext nd cfg index_id ix
                                    bitset' larger ef_in) [0..<n_queries]))
              | _ \<Rightarrow> None))"

text \<open>\<^verbatim>\<open>AnnIterator\<close>: the checks, the choice of the partition, then the above.\<close>

definition AnnIterator ::
  "externals \<Rightarrow> node \<Rightarrow> FaissHnswConfig \<Rightarrow> nat \<Rightarrow> BitsetView
   \<Rightarrow> (Status + FaissHnswIterator list) option" where
  "AnnIterator ext nd cfg n_queries bitset0 =
     (if isIndexEmpty nd then Some (Inl empty_index)
      else if \<not> is_ann_iterator_supported nd then Some (Inl invalid_args)
      else
        (let bitset = node_bitset ext nd bitset0
         in case partition_to_search nd bitset of
              None \<Rightarrow> None
            | Some (Inl e) \<Rightarrow> Some (Inl e)
            | Some (Inr index_id) \<Rightarrow>
                AnnIterator_on_partition ext nd cfg n_queries bitset index_id))"

text \<open>
  Externals for the examples only: arithmetic without rounding error (the examples stay
  far from the values where single precision rounds differently), the threshold
  \<open>93/100\<close>, setters that record the counts they are given.
\<close>

definition example_externals :: externals where
  "example_externals =
     \<lparr>to_float = (\<lambda>x. x), kHnswSearchKnnBFFilterThreshold = 93 / 100, kIteratorSeedEf = 40,
      IsMetricType = (\<lambda>a b. a = b), metric_IP = ''IP'', metric_COSINE = ''COSINE'',
      set_out_ids = (\<lambda>ids n c b. b\<lparr>bs_has_out_ids := True, bs_size := n,
                       bs_count := (case c of None \<Rightarrow> bs_count b | Some m \<Rightarrow> m)\<rparr>),
      set_id_offset = (\<lambda>off b. b)\<rparr>"

text \<open>Nodes, views and options for the examples.\<close>

definition refine_example :: node where
  "refine_example =
     \<lparr>indexes =
        [Some \<lparr>kind = IndexRefine (Some (IndexHNSW (Some (IndexScalarQuantizer QT_8bit False))))
                         (Some (IndexFlat False)),
               is_trained = True, ntotal = 4\<rparr>],
      labels = [], index_rows_sum = [], label_to_internal_offset = [],
      internal_offset_to_most_external_id = [], data_format = fp32,
      tmp_combined_scalar_ids = []\<rparr>"

definition flat_index_4 :: sub_index where
  "flat_index_4 = \<lparr>kind = IndexHNSW (Some (IndexFlat False)), is_trained = True, ntotal = 4\<rparr>"

definition all_pass :: BitsetView where
  "all_pass = \<lparr>bs_empty = False, bs_size = 4, bs_count = 0, bs_first_valid_index = 0,
      bs_has_out_ids = False, bs_filter_ratio = 0\<rparr>"

definition all_filtered :: BitsetView where
  "all_filtered = \<lparr>bs_empty = False, bs_size = 4, bs_count = 4, bs_first_valid_index = 4,
      bs_has_out_ids = False, bs_filter_ratio = 1\<rparr>"

definition example_config :: FaissHnswConfig where
  "example_config = \<lparr>metric_type = ''L2'', k = 2, ef = None, refine_k = None,
      iterator_refine_ratio = None, trace_visit = False, radius = 1, range_filter = 0\<rparr>"

section \<open>Top-k search (\<^verbatim>\<open>Search\<close>)\<close>




text \<open>The lambda \<^verbatim>\<open>bf_search_needed\<close>; \<open>has_bf\<close> is \<^verbatim>\<open>bf_index_wrapper_ptr != nullptr\<close>.\<close>

fun count_real_topk :: "int list \<Rightarrow> nat" where
  "count_real_topk [] = 0"
| "count_real_topk (i # ids) = (if i < 0 then count_real_topk ids else Suc (count_real_topk ids))"





text \<open>
  The check that opens \<^verbatim>\<open>Search\<close>, \<^verbatim>\<open>GetVectorByIds\<close> and the other operations: the
  first sub-index that is null or untrained decides.
\<close>

fun first_index_error :: "sub_index option list \<Rightarrow> Status option" where
  "first_index_error [] = None"
| "first_index_error (None # rest) = Some empty_index"
| "first_index_error (Some ix # rest) =
     (if \<not> is_trained ix then Some index_not_trained else first_index_error rest)"








section \<open>Range search (\<^verbatim>\<open>RangeSearch\<close>)\<close>







section \<open>Distances by ids (\<^verbatim>\<open>CalcDistByIDs\<close>)\<close>











section \<open>Reconstructing raw vectors (\<^verbatim>\<open>GetVectorByIds\<close>)\<close>

fun get_index_data_format :: "faiss_Index option \<Rightarrow> DataFormatEnum option" where
  "get_index_data_format None = None"
| "get_index_data_format (Some (IndexFlat c)) = Some fp32"
| "get_index_data_format (Some (IndexScalarQuantizer qtype c)) =
     (if qtype = QT_bf16 then Some bf16
      else if qtype = QT_fp16 then Some fp16
      else if qtype = QT_8bit_direct_signed then Some int8
      else None)"
| "get_index_data_format (Some other) = None"

definition GetIndexToReconstructRawDataFrom :: "node \<Rightarrow> nat \<Rightarrow> faiss_Index option" where
  "GetIndexToReconstructRawDataFrom nd i =
     (if length (indexes nd) \<le> i then None
      else
        (case indexes nd ! i of
           None \<Rightarrow> None
         | Some ix \<Rightarrow>
             (case kind ix of
                IndexRefine base_index refine_index \<Rightarrow>
                  (let index_data_format = get_index_data_format refine_index
                   in if index_data_format \<noteq> None \<and> the index_data_format = data_format nd
                      then refine_index else None)
              | IndexHNSW storage \<Rightarrow>
                  (let index_data_format = get_index_data_format storage
                   in if index_data_format \<noteq> None \<and> the index_data_format = data_format nd
                      then storage else None)
              | _ \<Rightarrow> None)))"

text \<open>
  An element of the result: a single-precision value, or what the casts to
  \<^verbatim>\<open>knowhere::fp16\<close>, \<^verbatim>\<open>knowhere::bf16\<close> and \<^verbatim>\<open>knowhere::int8\<close> give. The two
  half-precision casts and \<^verbatim>\<open>reconstruct\<close> of the underlying library are declared
  elsewhere.
\<close>

datatype scalar = F32 real | F16 real | BF16 real | I8 int

record reconstruct_lib =
  reconstruct :: "faiss_Index \<Rightarrow> int \<Rightarrow> real list attempt"
  cast_fp16 :: "real \<Rightarrow> real"
  cast_bf16 :: "real \<Rightarrow> real"

text \<open>The cast of a float in the range of \<^verbatim>\<open>int8\<close> truncates towards zero.\<close>

definition cast_int8 :: "real \<Rightarrow> int" where
  "cast_int8 x = (if 0 \<le> x then \<lfloor>x\<rfloor> else \<lceil>x\<rceil>)"

text \<open>
  \<^verbatim>\<open>convert_rows_from_fp32(src, dst, dst_data_format, start_row, 1, dim)\<close> for the one row
  \<open>src\<close>: the row written to \<open>dst\<close>, \<open>Returned None\<close> when the function returns false,
  \<open>Thrown\<close> for the overflow check of \<^verbatim>\<open>int8\<close>.
\<close>

definition convert_rows_from_fp32 ::
  "reconstruct_lib \<Rightarrow> real list \<Rightarrow> DataFormatEnum \<Rightarrow> scalar list option attempt" where
  "convert_rows_from_fp32 lib src dst_data_format =
     (if dst_data_format = fp16 then Returned (Some (map (\<lambda>x. F16 (cast_fp16 lib x)) src))
      else if dst_data_format = bf16 then Returned (Some (map (\<lambda>x. BF16 (cast_bf16 lib x)) src))
      else if dst_data_format = fp32 then Returned (Some (map F32 src))
      else if dst_data_format = int8
      then (if list_all (\<lambda>x. - 128 \<le> x \<and> x \<le> 127) src
            then Returned (Some (map (\<lambda>x. I8 (cast_int8 x)) src))
            else Thrown (Some ''convert float to int8_t overflow''))
      else Returned None)"

text \<open>
  The lambda \<^verbatim>\<open>get_vector\<close>: \<open>Returned None\<close> is its \<^verbatim>\<open>false\<close>, the outer \<open>None\<close> a
  read out of range. The sum \<^verbatim>\<open>label_to_internal_offset[id] + 1\<close> and the difference
  \<^verbatim>\<open>label_to_internal_offset[id] - index_rows_sum[index_id]\<close> are 32-bit.
\<close>

definition get_vector ::
  "reconstruct_lib \<Rightarrow> node \<Rightarrow> faiss_Index list \<Rightarrow> int \<Rightarrow> real list option attempt option" where
  "get_vector lib nd indexes_to_reconstruct_from i =
     (if length (indexes nd) = 1
      then (case nth_opt indexes_to_reconstruct_from 0 of
              None \<Rightarrow> None
            | Some ix \<Rightarrow>
                Some (case reconstruct lib ix i of
                        Thrown w \<Rightarrow> Thrown w | Returned v \<Rightarrow> Returned (Some v)))
      else if i < 0 then None
      else
        (case nth_opt (label_to_internal_offset nd) (nat i) of
           None \<Rightarrow> None
         | Some off \<Rightarrow>
             (let it = lower_bound (map unat (index_rows_sum nd)) (unat (off + 1))
              in if it = length (index_rows_sum nd) then Some (Returned None)
                 else if it = 0 then None
                 else
                   (case nth_opt indexes_to_reconstruct_from (it - 1) of
                      None \<Rightarrow> None
                    | Some ix \<Rightarrow>
                        Some (case reconstruct lib ix
                                     (uint (off - index_rows_sum nd ! (it - 1))) of
                                Thrown w \<Rightarrow> Thrown w | Returned v \<Rightarrow> Returned (Some v))))))"

text \<open>
  The loops over the rows. For \<^verbatim>\<open>fp32\<close> the vector is reconstructed into the result;
  for the other formats into the temporary buffer \<^verbatim>\<open>tmp\<close>, which is then converted
  into row \<open>i\<close> of the result.
\<close>

fun reconstruct_rows ::
  "reconstruct_lib \<Rightarrow> node \<Rightarrow> faiss_Index list \<Rightarrow> int list
   \<Rightarrow> (Status + scalar list list) option" where
  "reconstruct_rows lib nd srcs [] = Some (Inr [])"
| "reconstruct_rows lib nd srcs (i # ids) =
     (case get_vector lib nd srcs i of
        None \<Rightarrow> None
      | Some (Thrown w) \<Rightarrow> Some (Inl faiss_inner_error)
      | Some (Returned None) \<Rightarrow> Some (Inl invalid_index_error)
      | Some (Returned (Some tmp)) \<Rightarrow>
          (case (if data_format nd = fp32 then Returned (Some (map F32 tmp))
                 else convert_rows_from_fp32 lib tmp (data_format nd)) of
             Thrown w \<Rightarrow> Some (Inl faiss_inner_error)
           | Returned None \<Rightarrow> Some (Inl invalid_args)
           | Returned (Some row) \<Rightarrow>
               (case reconstruct_rows lib nd srcs ids of
                  None \<Rightarrow> None
                | Some (Inl e) \<Rightarrow> Some (Inl e)
                | Some (Inr rows) \<Rightarrow> Some (Inr (row # rows)))))"

definition GetVectorByIds ::
  "reconstruct_lib \<Rightarrow> node \<Rightarrow> int list \<Rightarrow> (Status + scalar list list) option" where
  "GetVectorByIds lib nd ids =
     (if indexes nd = [] then Some (Inl empty_index)
      else
        (case first_index_error (indexes nd) of
           Some e \<Rightarrow> Some (Inl e)
         | None \<Rightarrow>
             (let indexes_to_reconstruct_from =
                    map (GetIndexToReconstructRawDataFrom nd) [0..<length (indexes nd)]
              in if None \<in> set indexes_to_reconstruct_from then Some (Inl invalid_index_error)
                 else if data_format nd = fp32 \<or> data_format nd = fp16
                         \<or> data_format nd = bf16 \<or> data_format nd = int8
                 then reconstruct_rows lib nd (map the indexes_to_reconstruct_from) ids
                 else Some (Inl invalid_args))))"

text \<open>
  The storages that the amended claim C7 lets through: a flat storage on a node of
  \<^verbatim>\<open>fp32\<close> data, a scalar quantizer whose type is \<^verbatim>\<open>fp16\<close>, \<^verbatim>\<open>bf16\<close> or
  \<^verbatim>\<open>8bit_direct_signed\<close> on a node of \<^verbatim>\<open>fp16\<close>, \<^verbatim>\<open>bf16\<close> or \<^verbatim>\<open>int8\<close> data.
\<close>

fun preserves_raw_data :: "DataFormatEnum \<Rightarrow> faiss_Index option \<Rightarrow> bool" where
  "preserves_raw_data df (Some (IndexFlat c)) = (df = fp32)"
| "preserves_raw_data df (Some (IndexScalarQuantizer qtype c)) =
     (qtype = QT_fp16 \<and> df = fp16 \<or> qtype = QT_bf16 \<and> df = bf16
      \<or> qtype = QT_8bit_direct_signed \<and> df = int8)"
| "preserves_raw_data df other = False"

text \<open>The index that holds the raw data of a sub-index, if any: the refine index of a
  refine wrapper, the storage of an HNSW index.\<close>

fun raw_data_holder :: "faiss_Index \<Rightarrow> faiss_Index option" where
  "raw_data_holder (IndexRefine base_index refine_index) = refine_index"
| "raw_data_holder (IndexHNSW storage) = storage"
| "raw_data_holder other = None"

text \<open>
  For the examples: a node with one trained sub-index of four rows, and a library whose
  \<^verbatim>\<open>reconstruct\<close> gives the vector \<open>(id, 0)\<close> and whose casts are exact.
\<close>

definition single_index_node :: "DataFormatEnum \<Rightarrow> faiss_Index \<Rightarrow> node" where
  "single_index_node df ix =
     (new_node df)\<lparr>indexes := [Some \<lparr>kind = ix, is_trained = True, ntotal = 4\<rparr>]\<rparr>"

definition example_reconstruct_lib :: reconstruct_lib where
  "example_reconstruct_lib =
     \<lparr>reconstruct = (\<lambda>ix i. Returned [real_of_int i, 0]), cast_fp16 = (\<lambda>x. x),
      cast_bf16 = (\<lambda>x. x)\<rparr>"

section \<open>Combining small partitions (\<^verbatim>\<open>combine_partitions\<close>)\<close>

text \<open>
  \<^verbatim>\<open>sizes\<close> is a vector of \<^verbatim>\<open>int\<close>: the size of every bucket, converted from
  \<^verbatim>\<open>size_t\<close> to 32 bits.
\<close>

definition bucket_sizes :: "u32 list list \<Rightarrow> nat \<Rightarrow> int" where
  "bucket_sizes scalar_info i = sint (word_of_nat (length (scalar_info ! i)) :: 32 word)"

text \<open>
  The loop over the sorted indices, with the variables \<^verbatim>\<open>res\<close>, \<^verbatim>\<open>cur\<close> and
  \<^verbatim>\<open>cur_size\<close> of the source; it returns \<^verbatim>\<open>res\<close> and \<^verbatim>\<open>cur\<close>.
\<close>

fun combine_loop ::
  "(nat \<Rightarrow> int) \<Rightarrow> int \<Rightarrow> nat list \<Rightarrow> nat list list \<Rightarrow> nat list \<Rightarrow> int
   \<Rightarrow> nat list list \<times> nat list" where
  "combine_loop sizes base_rows [] res cur cur_size = (res, cur)"
| "combine_loop sizes base_rows (i # indices) res cur cur_size =
     (if base_rows \<le> cur_size + sizes i
      then combine_loop sizes base_rows indices (res @ [cur @ [i]]) [] 0
      else combine_loop sizes base_rows indices res (cur @ [i]) (cur_size + sizes i))"

text \<open>The tail: what is left in \<^verbatim>\<open>cur\<close> after the loop.\<close>

definition combine_tail :: "nat list list \<times> nat list \<Rightarrow> nat list list" where
  "combine_tail rc =
     (case rc of (res, cur) \<Rightarrow>
        if cur \<noteq> []
        then (if res = [] then res @ [cur] else butlast res @ [last res @ cur])
        else res)"

text \<open>
  \<^verbatim>\<open>std::sort\<close> with the comparator \<^verbatim>\<open>sizes[i1] < sizes[i2]\<close> is a parameter
  \<open>std_sort\<close>: the standard leaves the order of buckets of equal size open. Its
  contract is \<open>std_sort_contract\<close>.
\<close>

definition combine_partitions ::
  "((nat \<Rightarrow> int) \<Rightarrow> nat list \<Rightarrow> nat list) \<Rightarrow> u32 list list \<Rightarrow> int \<Rightarrow> nat list list" where
  "combine_partitions std_sort scalar_info base_rows =
     (let scalar_size = length scalar_info;
          sizes = bucket_sizes scalar_info;
          indices = std_sort sizes [0..<scalar_size]
      in combine_tail (combine_loop sizes base_rows indices [] [] 0))"

definition std_sort_contract :: "((nat \<Rightarrow> int) \<Rightarrow> nat list \<Rightarrow> nat list) \<Rightarrow> bool" where
  "std_sort_contract std_sort =
     (\<forall>key xs. mset (std_sort key xs) = mset xs \<and> sorted (map key (std_sort key xs)))"

text \<open>The total size of a group of buckets, and the groups that reached \<open>base_rows\<close>
  and were closed as soon as they did.\<close>

definition group_size :: "(nat \<Rightarrow> int) \<Rightarrow> nat list \<Rightarrow> int" where
  "group_size sizes g = sum_list (map sizes g)"

definition open_group :: "(nat \<Rightarrow> int) \<Rightarrow> int \<Rightarrow> nat list \<Rightarrow> bool" where
  "open_group sizes base_rows g =
     list_all (\<lambda>p. p = [] \<or> group_size sizes p < base_rows) (prefixes g)"

definition closed_group :: "(nat \<Rightarrow> int) \<Rightarrow> int \<Rightarrow> nat list \<Rightarrow> bool" where
  "closed_group sizes base_rows g =
     (g \<noteq> [] \<and> base_rows \<le> group_size sizes g \<and> open_group sizes base_rows (butlast g))"

section \<open>Training (\<^verbatim>\<open>TrainIndexByScalarInfo\<close>, \<^verbatim>\<open>TrainInternal\<close>, \<^verbatim>\<open>Train\<close>)\<close>

text \<open>
  The innermost loop of \<^verbatim>\<open>TrainIndexByScalarInfo\<close>, over the rows \<open>m\<close> of one bucket,
  with \<open>pos = cur_size + m\<close> and \<open>base = index_rows_sum[i]\<close>:
  \<^verbatim>\<open>labels[i][cur_size + m] = bucket[m]\<close> and
  \<^verbatim>\<open>label_to_internal_offset[bucket[m]] = index_rows_sum[i] + cur_size + m\<close>, the sum
  truncated to 32 bits. \<open>None\<close>: a write out of range.
\<close>

fun assign_rows ::
  "u32 \<Rightarrow> nat \<Rightarrow> u32 list \<Rightarrow> u32 list \<Rightarrow> u32 list \<Rightarrow> (u32 list \<times> u32 list) option" where
  "assign_rows base pos [] lab l2o = Some (lab, l2o)"
| "assign_rows base pos (x # bucket) lab l2o =
     (if pos < length lab \<and> unat x < length l2o
      then assign_rows base (Suc pos) bucket (lab[pos := x])
             (l2o[unat x := base + word_of_nat pos])
      else None)"

text \<open>
  The loop over the buckets \<open>scalar_id\<close> of one partition. \<open>convertible\<close> says whether
  \<^verbatim>\<open>convert_rows_to_fp32\<close> knows the data format of the node; if not, the function
  returns \<^verbatim>\<open>invalid_args\<close>.
\<close>

fun fill_partition ::
  "bool \<Rightarrow> u32 list list \<Rightarrow> u32 \<Rightarrow> nat \<Rightarrow> nat list \<Rightarrow> u32 list \<Rightarrow> u32 list
   \<Rightarrow> (Status \<times> u32 list \<times> u32 list) option" where
  "fill_partition convertible scalar_info base cur_size [] lab l2o = Some (success, lab, l2o)"
| "fill_partition convertible scalar_info base cur_size (scalar_id # rest) lab l2o =
     (if \<not> scalar_id < length scalar_info then None
      else if \<not> convertible then Some (invalid_args, lab, l2o)
      else
        (case assign_rows base cur_size (scalar_info ! scalar_id) lab l2o of
           None \<Rightarrow> None
         | Some (lab', l2o') \<Rightarrow>
             fill_partition convertible scalar_info base
               (cur_size + length (scalar_info ! scalar_id)) rest lab' l2o'))"

definition convertible_to_fp32 :: "DataFormatEnum \<Rightarrow> bool" where
  "convertible_to_fp32 df = (df = fp16 \<or> df = bf16 \<or> df = fp32 \<or> df = int8)"

fun partition_size :: "u32 list list \<Rightarrow> nat list \<Rightarrow> nat option" where
  "partition_size scalar_info [] = Some 0"
| "partition_size scalar_info (j # js) =
     (if j < length scalar_info
      then map_option (\<lambda>n. length (scalar_info ! j) + n) (partition_size scalar_info js)
      else None)"

text \<open>
  The callback \<^verbatim>\<open>train_index(data, i, rows)\<close>: it returns a status and, when it gets
  that far, stores a trained index in \<^verbatim>\<open>indexes[i]\<close>; the training of the underlying
  library may throw.
\<close>

type_synonym train_fn = "nat \<Rightarrow> nat \<Rightarrow> (Status \<times> sub_index option) attempt"

text \<open>
  The loop over the partitions \<open>i\<close>; the list is what is left of
  \<^verbatim>\<open>tmp_combined_scalar_ids\<close> from \<open>i\<close> on. The result is the status (or the exception)
  and the node as it is then; \<open>None\<close>: a read or write out of range.
\<close>

fun train_partitions ::
  "train_fn \<Rightarrow> u32 list list \<Rightarrow> nat \<Rightarrow> nat list list \<Rightarrow> node
   \<Rightarrow> (Status attempt \<times> node) option" where
  "train_partitions train_index scalar_info i [] nd = Some (Returned success, nd)"
| "train_partitions train_index scalar_info i (ids # rest) nd =
     (case partition_size scalar_info ids of
        None \<Rightarrow> None
      | Some psize \<Rightarrow>
          if \<not> (i < length (labels nd) \<and> Suc i < length (index_rows_sum nd)
                \<and> i < length (indexes nd))
          then None
          else
            (let base = index_rows_sum nd ! i;
                 nd1 = nd\<lparr>index_rows_sum :=
                            (index_rows_sum nd)[Suc i := base + word_of_nat psize]\<rparr>
             in case fill_partition (convertible_to_fp32 (data_format nd)) scalar_info base 0
                       ids (replicate psize 0) (label_to_internal_offset nd) of
                  None \<Rightarrow> None
                | Some (st, lab, l2o) \<Rightarrow>
                    (let nd2 = nd1\<lparr>labels := (labels nd)[i := lab],
                                    label_to_internal_offset := l2o\<rparr>
                     in if st \<noteq> success then Some (Returned st, nd2)
                        else
                          (case train_index i psize of
                             Thrown w \<Rightarrow> Some (Thrown w, nd2)
                           | Returned (s, created) \<Rightarrow>
                               (let nd3 =
                                      (case created of
                                         None \<Rightarrow> nd2
                                       | Some ix \<Rightarrow>
                                           nd2\<lparr>indexes := (indexes nd2)[i := Some ix]\<rparr>)
                                in if s \<noteq> success then Some (Returned s, nd3)
                                   else train_partitions train_index scalar_info (Suc i)
                                          rest nd3)))))"

text \<open>
  \<^verbatim>\<open>TrainIndexByScalarInfo\<close>: the four vectors are resized (new elements are 0, null or,
  for \<^verbatim>\<open>labels\<close>, a pointer that the loop sets before it is read), then the partitions
  are trained in turn.
\<close>

definition TrainIndexByScalarInfo ::
  "train_fn \<Rightarrow> u32 list list \<Rightarrow> nat \<Rightarrow> node \<Rightarrow> (Status attempt \<times> node) option" where
  "TrainIndexByScalarInfo train_index scalar_info rows nd =
     (let n = length (tmp_combined_scalar_ids nd);
          nd0 = nd\<lparr>label_to_internal_offset := resize rows 0 (label_to_internal_offset nd),
                    index_rows_sum := resize (n + 1) 0 (index_rows_sum nd),
                    labels := resize n [] (labels nd),
                    indexes := resize n None (indexes nd)\<rparr>
      in train_partitions train_index scalar_info 0 (tmp_combined_scalar_ids nd) nd0)"

text \<open>
  What training uses and other files define: \<^verbatim>\<open>std::sort\<close>, \<^verbatim>\<open>Str2FaissMetricType\<close>
  (a metric of the underlying library, an enumeration, or nothing),
  \<^verbatim>\<open>get_sq_quantizer_type\<close>, \<^verbatim>\<open>pick_refine_index\<close> and the \<^verbatim>\<open>train\<close> method of an
  index, which may throw.
\<close>

record train_lib =
  std_sort :: "(nat \<Rightarrow> int) \<Rightarrow> nat list \<Rightarrow> nat list"
  Str2FaissMetricType :: "string \<Rightarrow> nat option"
  get_sq_quantizer_type :: "string \<Rightarrow> QuantizerType option"
  pick_refine_index :: "DataFormatEnum \<Rightarrow> string option \<Rightarrow> faiss_Index \<Rightarrow> faiss_Index option"
  index_train :: "faiss_Index \<Rightarrow> nat \<Rightarrow> unit attempt"

text \<open>The options of the configurations of the four kinds of node that training reads.\<close>

record FaissHnswTrainConfig = FaissHnswConfig +
  sq_type :: string
  nbits :: nat
  refine :: "bool option"
  refine_type :: "string option"

text \<open>
  \<^verbatim>\<open>1 << nbits\<close>, a shift of the 32-bit \<^verbatim>\<open>int\<close> 1. A shift by the width of the type
  or more is undefined: \<open>None\<close>.
\<close>

definition shl_1 :: "nat \<Rightarrow> int option" where
  "shl_1 n = (if n < 32 then Some (sint (push_bit n (1 :: 32 word))) else None)"

text \<open>
  The loop \<^verbatim>\<open>for (const auto& [field_id, scalar_info] : scalar_info_map)
  tmp_combined_scalar_ids = scalar_info.size() > 1 ? combine_partitions(scalar_info, base_rows) : {}\<close>.
\<close>

fun plan_partitions ::
  "((nat \<Rightarrow> int) \<Rightarrow> nat list \<Rightarrow> nat list) \<Rightarrow> int \<Rightarrow> (int \<times> u32 list list) list
   \<Rightarrow> nat list list \<Rightarrow> nat list list" where
  "plan_partitions srt base_rows [] tmp = tmp"
| "plan_partitions srt base_rows ((field_id, scalar_info) # rest) tmp =
     plan_partitions srt base_rows rest
       (if 1 < length scalar_info then combine_partitions srt scalar_info base_rows else [])"

text \<open>A call \<^verbatim>\<open>train_index(data, 0, rows)\<close> on the whole data.\<close>

definition train_whole :: "train_fn \<Rightarrow> nat \<Rightarrow> node \<Rightarrow> Status attempt \<times> node" where
  "train_whole train_index rows nd =
     (case train_index 0 rows of
        Thrown w \<Rightarrow> (Thrown w, nd)
      | Returned (s, created) \<Rightarrow>
          (Returned s,
           case created of
             None \<Rightarrow> nd
           | Some ix \<Rightarrow> nd\<lparr>indexes := (indexes nd)[0 := Some ix]\<rparr>))"

text \<open>
  The end of the four \<^verbatim>\<open>TrainInternal\<close>, after \<^verbatim>\<open>tmp_combined_scalar_ids\<close> is set: on the
  whole data (\<open>whole\<close>) or by scalar info.
\<close>

definition train_whole_or_by_scalar_info ::
  "train_fn \<Rightarrow> (int \<times> u32 list list) list \<Rightarrow> nat \<Rightarrow> (Status attempt \<times> node) \<Rightarrow> node
   \<Rightarrow> (Status attempt \<times> node) option" where
  "train_whole_or_by_scalar_info train_index scalar_info_map rows whole nd =
     (if scalar_info_map = [] \<or> length (tmp_combined_scalar_ids nd) \<le> 1 then Some whole
      else
        (case scalar_info_map of
           [] \<Rightarrow> Some (Returned success, nd)
         | (field_id, scalar_info) # rest \<Rightarrow>
             TrainIndexByScalarInfo train_index scalar_info rows nd))"

text \<open>The lambdas \<^verbatim>\<open>train_index\<close> of the flat, SQ and PQ/PRQ nodes.\<close>

definition trained :: "train_lib \<Rightarrow> faiss_Index \<Rightarrow> nat \<Rightarrow> (Status \<times> sub_index option) attempt" where
  "trained lib final_index rows =
     (case index_train lib final_index rows of
        Thrown w \<Rightarrow> Thrown w
      | Returned u \<Rightarrow>
          Returned (success, Some \<lparr>kind = final_index, is_trained = True, ntotal = 0\<rparr>))"

definition flat_train_index :: "train_lib \<Rightarrow> DataFormatEnum \<Rightarrow> bool \<Rightarrow> train_fn" where
  "flat_train_index lib df is_cosine i rows =
     (if df = fp32 then trained lib (IndexHNSW (Some (IndexFlat is_cosine))) rows
      else if df = fp16
      then trained lib (IndexHNSW (Some (IndexScalarQuantizer QT_fp16 is_cosine))) rows
      else if df = bf16
      then trained lib (IndexHNSW (Some (IndexScalarQuantizer QT_bf16 is_cosine))) rows
      else if df = int8
      then trained lib (IndexHNSW (Some (IndexScalarQuantizer QT_8bit_direct_signed is_cosine)))
             rows
      else Returned (invalid_metric_type, None))"

definition refined_train_index ::
  "train_lib \<Rightarrow> DataFormatEnum \<Rightarrow> FaissHnswTrainConfig \<Rightarrow> faiss_Index \<Rightarrow> train_fn" where
  "refined_train_index lib df hnsw_cfg hnsw_index i rows =
     (if (case refine hnsw_cfg of None \<Rightarrow> False | Some b \<Rightarrow> b) \<and> refine_type hnsw_cfg \<noteq> None
      then (case pick_refine_index lib df (refine_type hnsw_cfg) hnsw_index of
              None \<Rightarrow> Returned (invalid_args, None)
            | Some final_index \<Rightarrow> trained lib final_index rows)
      else trained lib hnsw_index rows)"

definition HNSWFlat_TrainInternal ::
  "externals \<Rightarrow> train_lib \<Rightarrow> FaissHnswTrainConfig \<Rightarrow> (int \<times> u32 list list) list \<Rightarrow> nat \<Rightarrow> node
   \<Rightarrow> (Status attempt \<times> node) option" where
  "HNSWFlat_TrainInternal ext lib hnsw_cfg scalar_info_map rows nd =
     (if Str2FaissMetricType lib (metric_type hnsw_cfg) = None
      then Some (Returned invalid_metric_type, nd)
      else
        (let is_cosine = IsMetricType ext (metric_type hnsw_cfg) (metric_COSINE ext);
             train_index = flat_train_index lib (data_format nd) is_cosine
         in if 1 < length scalar_info_map then Some (Returned invalid_args, nd)
            else
              (let nd1 = nd\<lparr>tmp_combined_scalar_ids :=
                              plan_partitions (std_sort lib) 128 scalar_info_map
                                (tmp_combined_scalar_ids nd)\<rparr>
               in train_whole_or_by_scalar_info train_index scalar_info_map rows
                    (train_whole train_index rows nd1) nd1)))"

definition HNSWSQ_TrainInternal ::
  "externals \<Rightarrow> train_lib \<Rightarrow> FaissHnswTrainConfig \<Rightarrow> (int \<times> u32 list list) list \<Rightarrow> nat \<Rightarrow> node
   \<Rightarrow> (Status attempt \<times> node) option" where
  "HNSWSQ_TrainInternal ext lib hnsw_cfg scalar_info_map rows nd =
     (if Str2FaissMetricType lib (metric_type hnsw_cfg) = None
      then Some (Returned invalid_metric_type, nd)
      else
        (case get_sq_quantizer_type lib (sq_type hnsw_cfg) of
           None \<Rightarrow> Some (Returned invalid_args, nd)
         | Some qtype \<Rightarrow>
             (let is_cosine = IsMetricType ext (metric_type hnsw_cfg) (metric_COSINE ext);
                  train_index =
                    refined_train_index lib (data_format nd) hnsw_cfg
                      (IndexHNSW (Some (IndexScalarQuantizer qtype is_cosine)))
              in if 1 < length scalar_info_map then Some (Returned invalid_args, nd)
                 else
                   (let nd1 = nd\<lparr>tmp_combined_scalar_ids :=
                                   plan_partitions (std_sort lib) 128 scalar_info_map
                                     (tmp_combined_scalar_ids nd)\<rparr>
                    in train_whole_or_by_scalar_info train_index scalar_info_map rows
                         (if convertible_to_fp32 (data_format nd)
                          then train_whole train_index rows nd1
                          else (Returned invalid_args, nd1))
                         nd1))))"

text \<open>
  \<^verbatim>\<open>TrainInternal\<close> of the PQ node and of the PRQ node: both train an HNSW index over
  flat storage and differ in the quantizer they train beside it, which is kept outside
  \<^verbatim>\<open>indexes\<close>.
\<close>

definition HNSWPQ_TrainInternal ::
  "externals \<Rightarrow> train_lib \<Rightarrow> FaissHnswTrainConfig \<Rightarrow> (int \<times> u32 list list) list \<Rightarrow> nat \<Rightarrow> node
   \<Rightarrow> (Status attempt \<times> node) option" where
  "HNSWPQ_TrainInternal ext lib hnsw_cfg scalar_info_map rows nd =
     (case shl_1 (nbits hnsw_cfg) of
        None \<Rightarrow> None
      | Some base_rows \<Rightarrow>
      if int rows < base_rows then Some (Returned faiss_inner_error, nd)
      else if Str2FaissMetricType lib (metric_type hnsw_cfg) = None
      then Some (Returned invalid_metric_type, nd)
      else
        (let is_cosine = IsMetricType ext (metric_type hnsw_cfg) (metric_COSINE ext);
             train_index =
               refined_train_index lib (data_format nd) hnsw_cfg
                 (IndexHNSW (Some (IndexFlat is_cosine)))
         in if 1 < length scalar_info_map then Some (Returned invalid_args, nd)
            else
              (let nd1 = nd\<lparr>tmp_combined_scalar_ids :=
                              plan_partitions (std_sort lib) base_rows scalar_info_map
                                (tmp_combined_scalar_ids nd)\<rparr>
               in train_whole_or_by_scalar_info train_index scalar_info_map rows
                    (if convertible_to_fp32 (data_format nd)
                     then train_whole train_index rows nd1
                     else (Returned invalid_args, nd1))
                    nd1)))"

definition HNSWPRQ_TrainInternal ::
  "externals \<Rightarrow> train_lib \<Rightarrow> FaissHnswTrainConfig \<Rightarrow> (int \<times> u32 list list) list \<Rightarrow> nat \<Rightarrow> node
   \<Rightarrow> (Status attempt \<times> node) option" where
  "HNSWPRQ_TrainInternal ext lib hnsw_cfg scalar_info_map rows nd =
     (case shl_1 (nbits hnsw_cfg) of
        None \<Rightarrow> None
      | Some base_rows \<Rightarrow>
      if int rows < base_rows then Some (Returned faiss_inner_error, nd)
      else if Str2FaissMetricType lib (metric_type hnsw_cfg) = None
      then Some (Returned invalid_metric_type, nd)
      else
        (let is_cosine = IsMetricType ext (metric_type hnsw_cfg) (metric_COSINE ext);
             train_index =
               refined_train_index lib (data_format nd) hnsw_cfg
                 (IndexHNSW (Some (IndexFlat is_cosine)))
         in if 1 < length scalar_info_map then Some (Returned invalid_args, nd)
            else
              (let nd1 = nd\<lparr>tmp_combined_scalar_ids :=
                              plan_partitions (std_sort lib) base_rows scalar_info_map
                                (tmp_combined_scalar_ids nd)\<rparr>
               in train_whole_or_by_scalar_info train_index scalar_info_map rows
                    (if convertible_to_fp32 (data_format nd)
                     then train_whole train_index rows nd1
                     else (Returned invalid_args, nd1))
                    nd1)))"

text \<open>
  \<^verbatim>\<open>BaseFaissIndexNode::Train\<close> runs \<^verbatim>\<open>TrainInternal\<close> and turns an exception into
  \<^verbatim>\<open>faiss_inner_error\<close>.
\<close>

definition Train :: "(Status attempt \<times> node) option \<Rightarrow> (Status \<times> node) option" where
  "Train train_internal =
     map_option
       (\<lambda>(r, nd). (case r of Thrown w \<Rightarrow> faiss_inner_error | Returned s \<Rightarrow> s, nd))
       train_internal"

text \<open>
  For the examples only: a library whose sort is the stable one, one of the orders
  that \<^verbatim>\<open>std::sort\<close> may leave, and in which nothing throws.
\<close>

definition example_train_lib :: train_lib where
  "example_train_lib =
     \<lparr>std_sort = sort_key, Str2FaissMetricType = (\<lambda>s. if s = ''L2'' then Some 1 else None),
      get_sq_quantizer_type = (\<lambda>s. None),
      pick_refine_index = (\<lambda>df t ix. None),
      index_train = (\<lambda>ix n. Returned ())\<rparr>"

definition example_train_config :: FaissHnswTrainConfig where
  "example_train_config =
     \<lparr>metric_type = ''L2'', k = 2, ef = None, refine_k = None, iterator_refine_ratio = None,
      trace_visit = False, radius = 1, range_filter = 0, sq_type = ''fp16'', nbits = 8, refine = None, refine_type = None\<rparr>"

text \<open>
  The node that training leaves for the buckets \<open>[[0, 2, 4], [1, 3]]\<close> over five rows
  with \<open>base_rows = 2\<close>, before any row is added.
\<close>

definition trained_example :: node where
  "trained_example =
     \<lparr>indexes = [Some \<lparr>kind = IndexHNSW (Some (IndexFlat False)), is_trained = True, ntotal = 0\<rparr>,
                 Some \<lparr>kind = IndexHNSW (Some (IndexFlat False)), is_trained = True, ntotal = 0\<rparr>],
      labels = [[1, 3], [0, 2, 4]], index_rows_sum = [0, 2, 5],
      label_to_internal_offset = [2, 0, 3, 1, 4],
      internal_offset_to_most_external_id = [], data_format = fp32,
      tmp_combined_scalar_ids = [[1], [0]]\<rparr>"

section \<open>The invariants of the mapping between labels and offsets\<close>



section \<open>The header of a partitioned index (\<^verbatim>\<open>writeHeader\<close>, \<^verbatim>\<open>readHeader\<close>)\<close>

text \<open>
  The stream is a list of bytes. The primitives of the underlying library that write and
  read one 32-bit value and one length-prefixed vector of 32-bit values are parameters: a
  write gives the bytes it appends, a read gives the value and the rest of the stream, or
  throws.
\<close>

type_synonym byte = "8 word"

record io_codec =
  write_value :: "u32 \<Rightarrow> byte list"
  read_value :: "byte list \<Rightarrow> (u32 \<times> byte list) attempt"
  write_vector :: "u32 list \<Rightarrow> byte list"
  read_vector :: "byte list \<Rightarrow> (u32 list \<times> byte list) attempt"

text \<open>
  What the primitives promise: a read gives back what the matching write wrote and
  leaves what follows it. The size of a vector is a \<^verbatim>\<open>size_t\<close>.
\<close>

definition codec_round_trip :: "io_codec \<Rightarrow> bool" where
  "codec_round_trip c =
     ((\<forall>v rest. read_value c (write_value c v @ rest) = Returned (v, rest))
      \<and> (\<forall>xs rest. length xs < 2 ^ 64 \<longrightarrow>
             read_vector c (write_vector c xs @ rest) = Returned (xs, rest)))"

text \<open>The loop \<^verbatim>\<open>for (const auto& label : labels) write_vector(*label, f)\<close>.\<close>

fun write_labels :: "io_codec \<Rightarrow> u32 list list \<Rightarrow> byte list" where
  "write_labels c [] = []"
| "write_labels c (label # rest) = write_vector c label @ write_labels c rest"

definition writeHeader :: "io_codec \<Rightarrow> node \<Rightarrow> byte list" where
  "writeHeader c nd =
     (let version = 0 :: u32;
          size_u32 = (word_of_nat (length (indexes nd)) :: u32);
          cluster_size = (word_of_nat (length (labels nd)) :: u32)
      in write_value c version @ write_value c size_u32 @ write_value c cluster_size
         @ write_labels c (labels nd)
         @ write_vector c (index_rows_sum nd)
         @ write_vector c (label_to_internal_offset nd))"

text \<open>
  The loop \<^verbatim>\<open>for (j = 0; j < cluster_size; ++j)\<close> of \<^verbatim>\<open>readHeader\<close>, with the number of
  rounds left: \<^verbatim>\<open>labels[j]\<close> becomes a new vector, which \<^verbatim>\<open>read_vector\<close> fills.
\<close>

fun read_labels ::
  "io_codec \<Rightarrow> nat \<Rightarrow> nat \<Rightarrow> u32 list list \<Rightarrow> byte list
   \<Rightarrow> unit attempt \<times> u32 list list \<times> byte list" where
  "read_labels c 0 j ls f = (Returned (), ls, f)"
| "read_labels c (Suc n) j ls f =
     (case read_vector c f of
        Thrown w \<Rightarrow> (Thrown w, ls[j := []], f)
      | Returned (v, f') \<Rightarrow> read_labels c n (Suc j) (ls[j := v]) f')"

text \<open>
  \<^verbatim>\<open>readHeader\<close>: the value it returns (or the exception), the node and the rest of the
  stream.
\<close>

definition readHeader ::
  "io_codec \<Rightarrow> node \<Rightarrow> byte list \<Rightarrow> u32 attempt \<times> node \<times> byte list" where
  "readHeader c nd f =
     (case read_value c f of
        Thrown w \<Rightarrow> (Thrown w, nd, f)
      | Returned (version, f1) \<Rightarrow>
     (case read_value c f1 of
        Thrown w \<Rightarrow> (Thrown w, nd, f1)
      | Returned (size_u32, f2) \<Rightarrow>
     (case read_value c f2 of
        Thrown w \<Rightarrow> (Thrown w, nd, f2)
      | Returned (cluster_size, f3) \<Rightarrow>
     (case read_labels c (unat cluster_size) 0
             (resize (unat cluster_size) [] (labels nd)) f3 of
        (Thrown w, ls, f4) \<Rightarrow> (Thrown w, nd\<lparr>labels := ls\<rparr>, f4)
      | (Returned u, ls, f4) \<Rightarrow>
     (case read_vector c f4 of
        Thrown w \<Rightarrow> (Thrown w, nd\<lparr>labels := ls\<rparr>, f4)
      | Returned (irs, f5) \<Rightarrow>
     (case read_vector c f5 of
        Thrown w \<Rightarrow> (Thrown w, nd\<lparr>labels := ls, index_rows_sum := irs\<rparr>, f5)
      | Returned (l2o, f6) \<Rightarrow>
          (Returned size_u32,
           nd\<lparr>labels := ls, index_rows_sum := irs, label_to_internal_offset := l2o\<rparr>,
           f6)))))))"

text \<open>
  A codec for the examples: a value is its four bytes, the low byte first; a vector is
  its size in eight bytes, then its values.
\<close>

fun le_bytes :: "nat \<Rightarrow> nat \<Rightarrow> byte list" where
  "le_bytes 0 x = []"
| "le_bytes (Suc n) x = word_of_nat (x mod 256) # le_bytes n (x div 256)"

fun le_value :: "byte list \<Rightarrow> nat" where
  "le_value [] = 0"
| "le_value (b # bs) = unat b + 256 * le_value bs"

definition le_read_value :: "byte list \<Rightarrow> (u32 \<times> byte list) attempt" where
  "le_read_value f =
     (if length f < 4 then Thrown (Some ''read error'')
      else Returned (word_of_nat (le_value (take 4 f)), drop 4 f))"

fun le_read_values :: "nat \<Rightarrow> byte list \<Rightarrow> (u32 list \<times> byte list) attempt" where
  "le_read_values 0 f = Returned ([], f)"
| "le_read_values (Suc n) f =
     (case le_read_value f of
        Thrown w \<Rightarrow> Thrown w
      | Returned (v, f') \<Rightarrow>
          (case le_read_values n f' of
             Thrown w \<Rightarrow> Thrown w
           | Returned (vs, f'') \<Rightarrow> Returned (v # vs, f'')))"

definition le_codec :: io_codec where
  "le_codec =
     \<lparr>write_value = (\<lambda>v. le_bytes 4 (unat v)),
      read_value = le_read_value,
      write_vector = (\<lambda>xs. le_bytes 8 (length xs) @ concat (map (\<lambda>v. le_bytes 4 (unat v)) xs)),
      read_vector = (\<lambda>f. if length f < 8 then Thrown (Some ''read error'')
                          else le_read_values (le_value (take 8 f)) (drop 8 f))\<rparr>"

section \<open>Theorems: deserialization status\<close>

lemma starts_with_prefix: "starts_with p s = prefix p s"
  by (induction p s rule: starts_with.induct) simp_all

lemma str_find_sublist: "(str_find p s \<noteq> None) = sublist p s"
proof (induction s)
  case Nil
  then show ?case by simp
next
  case (Cons c cs)
  then show ?case
    by (simp add: sublist_Cons_right starts_with_prefix)
qed

lemma is_faiss_fourcc_error_iff: "is_faiss_fourcc_error w = unrecognized_index_type w"
  unfolding is_faiss_fourcc_error_def unrecognized_index_type_def
  by (simp only: str_find_sublist split: option.split)

text \<open>
  Claim C8. Whenever the read inside \<^verbatim>\<open>Deserialize\<close> or \<^verbatim>\<open>DeserializeFromFile\<close> throws
  an exception with message \<open>w\<close>, the status is \<^verbatim>\<open>invalid_serialized_index_type\<close> if the
  message contains both "Index type" and "not recognized", and \<^verbatim>\<open>faiss_inner_error\<close>
  for every other exception; a read that throws nothing gives \<^verbatim>\<open>success\<close>.
\<close>

theorem Deserialize_status_of_read:
  "fst (Deserialize True is_mv hdr rd rd1 ixs) =
     (case fst (Deserialize_try is_mv hdr rd rd1 ixs) of
        Returned u \<Rightarrow> success
      | Thrown w \<Rightarrow>
          if unrecognized_index_type w then invalid_serialized_index_type
          else faiss_inner_error)
   \<and> fst (DeserializeFromFile is_mv opened is_mv2 hdr rd rd1 ixs) =
     (case fst (DeserializeFromFile_try is_mv opened is_mv2 hdr rd rd1 ixs) of
        Returned u \<Rightarrow> success
      | Thrown w \<Rightarrow>
          if unrecognized_index_type w then invalid_serialized_index_type
          else faiss_inner_error)"
  by (simp add: Deserialize_def DeserializeFromFile_def catch_status_def
      is_faiss_fourcc_error_iff split: prod.split attempt.split)

section \<open>Theorems: choosing the partition\<close>








section \<open>Theorems: the iterator\<close>

lemma FLT_MAX_gt_1: "1 < FLT_MAX"
proof -
  have "(1::real) < (2 - 1 / 2 ^ 23) * 1" by simp
  also have "\<dots> \<le> (2 - 1 / 2 ^ 23) * 2 ^ 127"
    by (intro mult_left_mono) simp_all
  finally show ?thesis by (simp add: FLT_MAX_def)
qed

lemma new_FaissHnswIterator_fields:
  assumes "new_FaissHnswIterator ext ix ls b e larger rr base = Some it"
  shows "refine_ratio it = rr" "it_index it = ix"
    "accumulated_alpha it = initial_accumulated_alpha ext b (ntotal ix)"
    "qdis_refine it \<noteq> None \<longrightarrow> is_IndexRefine (kind ix) \<and> rr \<noteq> 0"
  using assms
  by (auto simp: new_FaissHnswIterator_def Let_def
      split: faiss_Index.splits option.splits if_splits)

lemma those_map_const:
  "those (map (\<lambda>i. c) xs) = Some ys \<Longrightarrow> y \<in> set ys \<Longrightarrow> c = Some y"
  by (induction xs arbitrary: ys) (auto split: option.splits)

text \<open>
  Claim C10. Every iterator that \<^verbatim>\<open>AnnIterator\<close> returns is built on the index of the
  selected partition. If that index is a refine index, the iterator's refine ratio is the
  configured \<^verbatim>\<open>iterator_refine_ratio\<close> (0.5 when the option is unset); otherwise the
  ratio is 0, whatever is configured. A refine distance computer is set up only on a
  refine index (and only if the ratio is not 0).
\<close>

theorem AnnIterator_refine_ratio:
  assumes "AnnIterator ext nd cfg n b = Some (Inr its)" and "it \<in> set its"
  shows "(\<exists>index_id. partition_to_search nd (node_bitset ext nd b) = Some (Inr index_id)
            \<and> nth_opt (indexes nd) index_id = Some (Some (it_index it)))
       \<and> refine_ratio it =
           (if is_IndexRefine (kind (it_index it))
            then (case iterator_refine_ratio cfg of None \<Rightarrow> 1 / 2 | Some r \<Rightarrow> r)
            else 0)
       \<and> (qdis_refine it \<noteq> None \<longrightarrow> is_IndexRefine (kind (it_index it)) \<and> refine_ratio it \<noteq> 0)"
proof -
  from assms(1) obtain index_id bitset' ix larger ef_in where
    p: "partition_to_search nd (node_bitset ext nd b) = Some (Inr index_id)"
    and ix: "nth_opt (indexes nd) index_id = Some (Some ix)"
    and th: "those (map (\<lambda>i. ann_iterator_for_query ext nd cfg index_id ix bitset' larger ef_in)
                [0..<n]) = Some its"
    by (auto simp: AnnIterator_def AnnIterator_on_partition_def Let_def split: if_splits option.splits sum.splits)
  from those_map_const[OF th assms(2)]
  have q: "ann_iterator_for_query ext nd cfg index_id ix bitset' larger ef_in = Some it" .
  then obtain ls base where
    c: "new_FaissHnswIterator ext ix ls bitset' ef_in larger
          (if is_IndexRefine (kind ix)
           then (case iterator_refine_ratio cfg of None \<Rightarrow> 1 / 2 | Some r \<Rightarrow> r) else 0) base
        = Some it"
    by (auto simp: ann_iterator_for_query_def Let_def split: if_splits option.splits)
  from new_FaissHnswIterator_fields[OF c] p ix show ?thesis
    by auto
qed

theorem AnnIterator_refine_ratio_witness:
  "refine_ratio (hd (projr (the (AnnIterator example_externals refine_example example_config 2 all_pass)))) = 1 / 2
   \<and> refine_ratio (hd (projr (the (AnnIterator example_externals mv_example
        (example_config\<lparr>iterator_refine_ratio := Some (3 / 4)\<rparr>) 1 all_pass)))) = 0"
proof -
  have a: "\<exists>it. AnnIterator example_externals refine_example example_config 2 all_pass = Some (Inr [it, it])"
    by (simp add: AnnIterator_def AnnIterator_on_partition_def example_externals_def refine_example_def example_config_def
        all_pass_def isIndexEmpty_def is_ann_iterator_supported_def node_bitset_def
        partition_to_search_def getIndexToSearchByScalarInfo_def nth_opt_def
        ann_iterator_for_query_def new_FaissHnswIterator_def Let_def upt_rec)
  have b: "\<exists>it. AnnIterator example_externals mv_example
        (example_config\<lparr>iterator_refine_ratio := Some (3 / 4)\<rparr>) 1 all_pass = Some (Inr [it])"
    by (simp add: AnnIterator_def AnnIterator_on_partition_def example_externals_def mv_example_def example_config_def
        all_pass_def isIndexEmpty_def is_ann_iterator_supported_def node_bitset_def
        partition_to_search_def getIndexToSearchByScalarInfo_def nth_opt_def
        first_valid_offset_def upper_bound_def mv_bitset_def size_t_sub_def
        ann_iterator_for_query_def new_FaissHnswIterator_def Let_def)
  from a obtain it where a': "AnnIterator example_externals refine_example example_config 2 all_pass = Some (Inr [it, it])" by blast
  from b obtain it2 where b': "AnnIterator example_externals mv_example
        (example_config\<lparr>iterator_refine_ratio := Some (3 / 4)\<rparr>) 1 all_pass = Some (Inr [it2])" by blast
  have ka: "is_IndexRefine (kind (it_index it))"
    using a' by (auto simp: AnnIterator_def AnnIterator_on_partition_def example_externals_def refine_example_def example_config_def
        all_pass_def isIndexEmpty_def is_ann_iterator_supported_def node_bitset_def
        partition_to_search_def getIndexToSearchByScalarInfo_def nth_opt_def
        ann_iterator_for_query_def new_FaissHnswIterator_def Let_def upt_rec)
  have kb: "\<not> is_IndexRefine (kind (it_index it2))"
    using b' by (auto simp: AnnIterator_def AnnIterator_on_partition_def example_externals_def mv_example_def example_config_def
        all_pass_def isIndexEmpty_def is_ann_iterator_supported_def node_bitset_def
        partition_to_search_def getIndexToSearchByScalarInfo_def nth_opt_def
        first_valid_offset_def upper_bound_def mv_bitset_def size_t_sub_def
        ann_iterator_for_query_def new_FaissHnswIterator_def Let_def)
  have ra: "refine_ratio it = 1 / 2"
    using AnnIterator_refine_ratio[OF a', of it] ka by (simp add: example_config_def)
  have rb: "refine_ratio it2 = 0"
    using AnnIterator_refine_ratio[OF b', of it2] kb by simp
  show ?thesis
    unfolding a' b' using ra rb by simp
qed

text \<open>
  Claim C4, as the code has it. The constructor sets \<^verbatim>\<open>accumulated_alpha\<close> to
  \<^verbatim>\<open>std::numeric_limits<float>::max()\<close>, the largest finite value, exactly when
  \<^verbatim>\<open>bitset.count()\<close>, the number of rows that the filter removes, is at least
  \<^verbatim>\<open>ntotal\<close> times \<^verbatim>\<open>kHnswSearchKnnBFFilterThreshold\<close> (compared in single
  precision), and to 1.0 otherwise.
\<close>

theorem iterator_initial_alpha:
  assumes "new_FaissHnswIterator ext ix ls b e larger rr base = Some it"
  shows "(accumulated_alpha it = FLT_MAX \<longleftrightarrow>
            to_float ext (to_float ext (real_of_int (ntotal ix)) * kHnswSearchKnnBFFilterThreshold ext)
              \<le> to_float ext (real (bs_count b)))
       \<and> (accumulated_alpha it = 1 \<longleftrightarrow>
            \<not> to_float ext (to_float ext (real_of_int (ntotal ix)) * kHnswSearchKnnBFFilterThreshold ext)
              \<le> to_float ext (real (bs_count b)))"
  using new_FaissHnswIterator_fields(3)[OF assms] FLT_MAX_gt_1
  by (simp add: initial_accumulated_alpha_def)

lemma flat_iterator_exists:
  "\<exists>it. new_FaissHnswIterator example_externals flat_index_4 None b 40 False 0 0 = Some it"
  by (simp add: new_FaissHnswIterator_def flat_index_4_def Let_def)

theorem iterator_initial_alpha_witness:
  "accumulated_alpha
     (the (new_FaissHnswIterator example_externals flat_index_4 None all_filtered 40 False 0 0))
   = FLT_MAX"
proof -
  obtain it where
    c: "new_FaissHnswIterator example_externals flat_index_4 None all_filtered 40 False 0 0 = Some it"
    using flat_iterator_exists by blast
  have "accumulated_alpha it = FLT_MAX"
    using iterator_initial_alpha[OF c]
    by (simp add: example_externals_def flat_index_4_def all_filtered_def)
  then show ?thesis
    by (simp add: c)
qed

text \<open>
  The claim as stated compares the number of rows that pass the filter. On an index of
  four rows with a view that filters nothing out, all four rows pass, which is at least
  \<open>4 \<times> 0.93\<close>, yet \<^verbatim>\<open>accumulated_alpha\<close> is the tight value 1.0 and not the
  unrestricted one.
\<close>

theorem iterator_alpha_passing_counterexample:
  "real_of_int (ntotal flat_index_4) * kHnswSearchKnnBFFilterThreshold example_externals
       \<le> real (passing_count all_pass)
   \<and> accumulated_alpha
       (the (new_FaissHnswIterator example_externals flat_index_4 None all_pass 40 False 0 0))
     = 1
   \<and> FLT_MAX \<noteq> 1"
proof -
  obtain it where
    c: "new_FaissHnswIterator example_externals flat_index_4 None all_pass 40 False 0 0 = Some it"
    using flat_iterator_exists by blast
  have "accumulated_alpha it = 1"
    using new_FaissHnswIterator_fields(3)[OF c]
    by (simp add: initial_accumulated_alpha_def example_externals_def flat_index_4_def
        all_pass_def)
  moreover have "real_of_int (ntotal flat_index_4) * kHnswSearchKnnBFFilterThreshold example_externals
       \<le> real (passing_count all_pass)"
    by (simp add: example_externals_def flat_index_4_def all_pass_def passing_count_def
        size_t_sub_def)
  ultimately show ?thesis
    using FLT_MAX_gt_1 by (simp add: c)
qed


section \<open>Theorems: the brute-force fallback of a search\<close>

lemma count_real_topk_filter: "count_real_topk ids = length (filter (\<lambda>i. 0 \<le> i) ids)"
  by (induction ids) auto





section \<open>Theorems: reconstructing raw vectors\<close>

lemma get_index_data_format_preserves:
  "(get_index_data_format st \<noteq> None \<and> the (get_index_data_format st) = df)
     = preserves_raw_data df st"
  by (cases "(df, st)" rule: preserves_raw_data.cases) auto

lemma GetIndexToReconstructRawDataFrom_holder:
  assumes "i < length (indexes nd)" and "indexes nd ! i = Some ix"
  shows "GetIndexToReconstructRawDataFrom nd i =
           (if preserves_raw_data (data_format nd) (raw_data_holder (kind ix))
            then raw_data_holder (kind ix) else None)"
  using assms
  unfolding GetIndexToReconstructRawDataFrom_def Let_def get_index_data_format_preserves
  by (cases "kind ix") simp_all

lemma first_index_error_None:
  "first_index_error ixs = None \<Longrightarrow> i < length ixs \<Longrightarrow> \<exists>ix. ixs ! i = Some ix \<and> is_trained ix"
proof (induction ixs arbitrary: i rule: first_index_error.induct)
  case 1
  then show ?case by simp
next
  case (2 rest)
  then show ?case by simp
next
  case (3 ix rest)
  then show ?case
    by (cases i) (auto split: if_splits)
qed

lemma reconstruct_rows_converted:
  assumes "reconstruct_rows lib nd srcs ids = Some (Inr rows)"
  shows "list_all2
           (\<lambda>i row. \<exists>tmp. get_vector lib nd srcs i = Some (Returned (Some tmp))
                \<and> (if data_format nd = fp32 then row = map F32 tmp
                    else convert_rows_from_fp32 lib tmp (data_format nd) = Returned (Some row)))
           ids rows"
  using assms
proof (induction ids arbitrary: rows)
  case Nil
  then show ?case by simp
next
  case (Cons i ids)
  then show ?case
    by (auto split: option.splits attempt.splits sum.splits if_splits)
qed


text \<open>
  Claim C7, as the code has it. The index that \<^verbatim>\<open>GetVectorByIds\<close> reconstructs a
  sub-index from is the refine index when the sub-index is a refine wrapper and the
  storage of the HNSW index otherwise, and only if it preserves the raw data of the
  node: a flat index when the data format of the node is \<^verbatim>\<open>fp32\<close>, a scalar quantizer
  when its type (\<^verbatim>\<open>fp16\<close>, \<^verbatim>\<open>bf16\<close>, \<^verbatim>\<open>8bit_direct_signed\<close>) matches the data format
  of the node. The call succeeds only if every sub-index has such an index; on trained
  sub-indexes of which one has none it returns \<^verbatim>\<open>invalid_index_error\<close>. For a data
  format other than \<^verbatim>\<open>fp32\<close> every row of the result is the conversion of the
  reconstructed single-precision vector of its id.
\<close>

theorem GetVectorByIds_raw_data:
  "(\<forall>i ix. i < length (indexes nd) \<and> indexes nd ! i = Some ix \<longrightarrow>
      GetIndexToReconstructRawDataFrom nd i =
        (if preserves_raw_data (data_format nd) (raw_data_holder (kind ix))
         then raw_data_holder (kind ix) else None))
   \<and> (\<forall>rows. GetVectorByIds lib nd ids = Some (Inr rows) \<longrightarrow>
        (\<forall>i < length (indexes nd). \<exists>ix. indexes nd ! i = Some ix \<and> is_trained ix
            \<and> preserves_raw_data (data_format nd) (raw_data_holder (kind ix)))
        \<and> (data_format nd \<noteq> fp32 \<longrightarrow>
             list_all2
               (\<lambda>i row. \<exists>tmp.
                   get_vector lib nd
                     (map (the \<circ> GetIndexToReconstructRawDataFrom nd) [0..<length (indexes nd)]) i
                     = Some (Returned (Some tmp))
                   \<and> convert_rows_from_fp32 lib tmp (data_format nd) = Returned (Some row))
               ids rows))
   \<and> (indexes nd \<noteq> [] \<and> first_index_error (indexes nd) = None
        \<and> (\<exists>i ix. i < length (indexes nd) \<and> indexes nd ! i = Some ix
              \<and> \<not> preserves_raw_data (data_format nd) (raw_data_holder (kind ix)))
        \<longrightarrow> GetVectorByIds lib nd ids = Some (Inl invalid_index_error))"
proof (intro conjI allI impI)
  fix i ix
  assume "i < length (indexes nd) \<and> indexes nd ! i = Some ix"
  then show "GetIndexToReconstructRawDataFrom nd i =
        (if preserves_raw_data (data_format nd) (raw_data_holder (kind ix))
         then raw_data_holder (kind ix) else None)"
    using GetIndexToReconstructRawDataFrom_holder by blast
next
  fix rows i
  assume ok: "GetVectorByIds lib nd ids = Some (Inr rows)" and i: "i < length (indexes nd)"
  from ok have fe: "first_index_error (indexes nd) = None"
    and nn: "None \<notin> set (map (GetIndexToReconstructRawDataFrom nd) [0..<length (indexes nd)])"
    by (auto simp: GetVectorByIds_def Let_def split: if_splits option.splits)
  from first_index_error_None[OF fe i] obtain ix where
    ix: "indexes nd ! i = Some ix" "is_trained ix"
    by blast
  from nn i have "GetIndexToReconstructRawDataFrom nd i \<noteq> None"
    by (metis (no_types, lifting) add_0 diff_zero length_map length_upt nth_map nth_mem nth_upt)
  with GetIndexToReconstructRawDataFrom_holder[OF i ix(1)]
  have "preserves_raw_data (data_format nd) (raw_data_holder (kind ix))"
    by (simp split: if_splits)
  with ix show "\<exists>ix. indexes nd ! i = Some ix \<and> is_trained ix
            \<and> preserves_raw_data (data_format nd) (raw_data_holder (kind ix))"
    by blast
next
  fix rows
  assume ok: "GetVectorByIds lib nd ids = Some (Inr rows)" and nf: "data_format nd \<noteq> fp32"
  let ?srcs = "map (the \<circ> GetIndexToReconstructRawDataFrom nd) [0..<length (indexes nd)]"
  from ok have "reconstruct_rows lib nd ?srcs ids = Some (Inr rows)"
    by (auto simp: GetVectorByIds_def Let_def split: if_splits option.splits)
  from reconstruct_rows_converted[OF this] nf
  show "list_all2
          (\<lambda>i row. \<exists>tmp. get_vector lib nd ?srcs i = Some (Returned (Some tmp))
              \<and> convert_rows_from_fp32 lib tmp (data_format nd) = Returned (Some row))
          ids rows"
    by simp
next
  assume a: "indexes nd \<noteq> [] \<and> first_index_error (indexes nd) = None
        \<and> (\<exists>i ix. i < length (indexes nd) \<and> indexes nd ! i = Some ix
              \<and> \<not> preserves_raw_data (data_format nd) (raw_data_holder (kind ix)))"
  then obtain i ix where i: "i < length (indexes nd)" and ix: "indexes nd ! i = Some ix"
    and np: "\<not> preserves_raw_data (data_format nd) (raw_data_holder (kind ix))"
    by blast
  from GetIndexToReconstructRawDataFrom_holder[OF i ix] np
  have "GetIndexToReconstructRawDataFrom nd i = None"
    by simp
  with i have "None \<in> set (map (GetIndexToReconstructRawDataFrom nd) [0..<length (indexes nd)])"
    by (metis (no_types, lifting) add_0 diff_zero length_map length_upt nth_map nth_mem nth_upt)
  with a show "GetVectorByIds lib nd ids = Some (Inl invalid_index_error)"
    by (simp add: GetVectorByIds_def Let_def)
qed

theorem GetVectorByIds_raw_data_witness:
  "GetIndexToReconstructRawDataFrom refine_example 0 = Some (IndexFlat False)
   \<and> GetVectorByIds example_reconstruct_lib
        (single_index_node fp32 (IndexHNSW (Some (IndexPQ False)))) [0, 1]
       = Some (Inl invalid_index_error)
   \<and> preserves_raw_data fp16 (Some (IndexScalarQuantizer QT_fp16 False))"
proof -
  let ?pq = "single_index_node fp32 (IndexHNSW (Some (IndexPQ False)))"
  let ?sq = "single_index_node fp16 (IndexHNSW (Some (IndexScalarQuantizer QT_fp16 False)))"
  have ok: "GetVectorByIds example_reconstruct_lib ?sq [0, 1]
              = Some (Inr [[F16 0, F16 0], [F16 1, F16 0]])"
    by (simp add: GetVectorByIds_def single_index_node_def new_node_def Let_def
        GetIndexToReconstructRawDataFrom_def get_vector_def nth_opt_def
        example_reconstruct_lib_def convert_rows_from_fp32_def)
  have a: "GetIndexToReconstructRawDataFrom refine_example 0 = Some (IndexFlat False)"
    using GetVectorByIds_raw_data[of refine_example example_reconstruct_lib "[]"]
    by (simp add: refine_example_def)
  have b: "GetVectorByIds example_reconstruct_lib ?pq [0, 1] = Some (Inl invalid_index_error)"
    using GetVectorByIds_raw_data[of ?pq example_reconstruct_lib "[0, 1]"]
    by (simp add: single_index_node_def new_node_def)
  have c: "preserves_raw_data fp16 (Some (IndexScalarQuantizer QT_fp16 False))"
    using GetVectorByIds_raw_data[of ?sq example_reconstruct_lib "[0, 1]"] ok
    by (simp add: single_index_node_def new_node_def)
  from a b c show ?thesis
    by simp
qed

text \<open>
  The claim as stated lets a flat storage through always. On a node of \<^verbatim>\<open>fp16\<close> data
  whose HNSW index stores its vectors in a flat index, the call returns
  \<^verbatim>\<open>invalid_index_error\<close>.
\<close>

theorem GetVectorByIds_flat_counterexample:
  "raw_data_holder (IndexHNSW (Some (IndexFlat False))) = Some (IndexFlat False)
   \<and> GetVectorByIds example_reconstruct_lib
        (single_index_node fp16 (IndexHNSW (Some (IndexFlat False)))) [0]
       = Some (Inl invalid_index_error)"
  by (simp add: GetVectorByIds_def single_index_node_def new_node_def Let_def
      GetIndexToReconstructRawDataFrom_def)


section \<open>Theorems: training\<close>

lemma shl_1_eq: "n < 31 \<Longrightarrow> shl_1 n = Some (2 ^ n)"
proof -
  assume n: "n < 31"
  have "(2::int) ^ n < 2 ^ 31"
    using n by (intro power_strict_increasing) simp_all
  moreover have "- (2 ^ 31) \<le> (2::int) ^ n"
    by (smt (verit) zero_le_power)
  ultimately have "signed_take_bit 31 ((2::int) ^ n) = 2 ^ n"
    by (simp add: signed_take_bit_int_eq_self)
  moreover have "push_bit n (1 :: 32 word) = word_of_int (2 ^ n)"
    by (simp add: push_bit_of_1)
  ultimately show ?thesis
    using n unfolding shl_1_def by (simp only: sint_sbintrunc') simp
qed

lemma bucket_sizes_eq:
  "length (scalar_info ! i) < 2 ^ 31 \<Longrightarrow> bucket_sizes scalar_info i = int (length (scalar_info ! i))"
  unfolding bucket_sizes_def
  by (simp add: signed_of_nat signed_take_bit_int_eq_self)

text \<open>
  Claim C5, as the code has it. When the training data of an HNSW_PQ or HNSW_PRQ node
  has fewer than \<open>2 ^ nbits\<close> rows, \<^verbatim>\<open>Train\<close> fails with \<^verbatim>\<open>faiss_inner_error\<close> and leaves
  the node as it was (\<open>nbits\<close> below 31, where the shift \<^verbatim>\<open>1 << nbits\<close> of an \<^verbatim>\<open>int\<close>
  is \<open>2 ^ nbits\<close>).
\<close>

theorem pq_too_few_rows:
  assumes "nbits hnsw_cfg < 31" and "rows < 2 ^ nbits hnsw_cfg"
  shows "Train (HNSWPQ_TrainInternal ext lib hnsw_cfg scalar_info_map rows nd)
           = Some (faiss_inner_error, nd)
       \<and> Train (HNSWPRQ_TrainInternal ext lib hnsw_cfg scalar_info_map rows nd)
           = Some (faiss_inner_error, nd)"
proof -
  have "int rows < int (2 ^ nbits hnsw_cfg)"
    using assms(2) by (simp only: of_nat_less_iff)
  then show ?thesis
    by (simp add: Train_def HNSWPQ_TrainInternal_def HNSWPRQ_TrainInternal_def
        shl_1_eq[OF assms(1)])
qed

theorem pq_too_few_rows_witness:
  "Train (HNSWPQ_TrainInternal example_externals example_train_lib example_train_config []
            255 (new_node fp32)) = Some (faiss_inner_error, new_node fp32)
   \<and> Train (HNSWPRQ_TrainInternal example_externals example_train_lib example_train_config []
            255 (new_node fp32)) = Some (faiss_inner_error, new_node fp32)"
proof -
  have "nbits example_train_config < 31" "(255::nat) < 2 ^ nbits example_train_config"
    by (simp_all add: example_train_config_def)
  from pq_too_few_rows[OF this] show ?thesis .
qed

text \<open>
  The claim as stated names \<^verbatim>\<open>invalid_args\<close>. With \<open>nbits = 8\<close> and 100 rows the
  status is \<^verbatim>\<open>faiss_inner_error\<close>.
\<close>

theorem pq_too_few_rows_counterexample:
  "int 100 < 2 ^ nbits example_train_config
   \<and> (\<exists>nd. Train (HNSWPQ_TrainInternal example_externals example_train_lib
                   example_train_config [] 100 (new_node fp32)) = Some (faiss_inner_error, nd))
   \<and> faiss_inner_error \<noteq> invalid_args"
proof -
  have "shl_1 8 = Some 256"
    using shl_1_eq[of 8] by simp
  then have "shl_1 (nbits example_train_config) = Some 256"
    by (simp add: example_train_config_def)
  then show ?thesis
    by (simp add: Train_def HNSWPQ_TrainInternal_def) (simp add: example_train_config_def)
qed


section \<open>Theorems: combining partitions\<close>

lemma group_size_snoc: "group_size sizes (g @ [i]) = group_size sizes g + sizes i"
  by (simp add: group_size_def)

lemma group_size_append: "group_size sizes (g @ h) = group_size sizes g + group_size sizes h"
  by (simp add: group_size_def)

lemma open_group_Nil: "open_group sizes base_rows []"
  by (simp add: open_group_def)

lemma open_group_snoc:
  "open_group sizes base_rows (g @ [i]) =
     (open_group sizes base_rows g \<and> group_size sizes (g @ [i]) < base_rows)"
  by (simp add: open_group_def prefixes_snoc)

lemma combine_loop_inv:
  assumes "combine_loop sizes base_rows xs res cur cs = (res', cur')"
    and "cs = group_size sizes cur" and "open_group sizes base_rows cur"
    and "\<forall>g \<in> set res. closed_group sizes base_rows g"
  shows "concat res' @ cur' = concat res @ cur @ xs
       \<and> (\<forall>g \<in> set res'. closed_group sizes base_rows g)
       \<and> open_group sizes base_rows cur'"
  using assms
proof (induction xs arbitrary: res cur cs)
  case Nil
  then show ?case by simp
next
  case (Cons i xs)
  show ?case
  proof (cases "base_rows \<le> cs + sizes i")
    case True
    with Cons.prems(1) have
      l: "combine_loop sizes base_rows xs (res @ [cur @ [i]]) [] 0 = (res', cur')"
      by simp
    have c: "closed_group sizes base_rows (cur @ [i])"
      using True Cons.prems(2,3) by (simp add: closed_group_def group_size_snoc)
    have "concat res' @ cur' = concat (res @ [cur @ [i]]) @ [] @ xs
       \<and> (\<forall>g \<in> set res'. closed_group sizes base_rows g)
       \<and> open_group sizes base_rows cur'"
      using c Cons.prems(4)
      by (intro Cons.IH[OF l]) (auto simp: group_size_def open_group_Nil)
    then show ?thesis by simp
  next
    case False
    with Cons.prems(1) have
      l: "combine_loop sizes base_rows xs res (cur @ [i]) (cs + sizes i) = (res', cur')"
      by simp
    have o: "open_group sizes base_rows (cur @ [i])"
      using False Cons.prems(2,3) by (simp add: open_group_snoc group_size_snoc)
    have "concat res' @ cur' = concat res @ (cur @ [i]) @ xs
       \<and> (\<forall>g \<in> set res'. closed_group sizes base_rows g)
       \<and> open_group sizes base_rows cur'"
      using o Cons.prems(2,4)
      by (intro Cons.IH[OF l]) (auto simp: group_size_snoc)
    then show ?thesis by simp
  qed
qed

lemma closed_group_nonempty: "closed_group sizes base_rows g \<Longrightarrow> g \<noteq> []"
  by (simp add: closed_group_def)

text \<open>What the result of \<open>combine_tail\<close> looks like, given the invariant of the loop.\<close>

lemma combine_tail_groups:
  assumes "concat res @ cur = indices"
    and "\<forall>g \<in> set res. closed_group sizes base_rows g"
    and "open_group sizes base_rows cur"
  shows "concat (combine_tail (res, cur)) = indices"
    and "[] \<notin> set (combine_tail (res, cur))"
    and "\<forall>g \<in> set (butlast (combine_tail (res, cur))). closed_group sizes base_rows g"
    and "combine_tail (res, cur) \<noteq> [] \<longrightarrow>
          (\<exists>g tl. last (combine_tail (res, cur)) = g @ tl \<and> open_group sizes base_rows tl
             \<and> (closed_group sizes base_rows g \<or> g = [] \<and> combine_tail (res, cur) = [tl]))"
    and "res = [] \<longrightarrow> indices \<noteq> [] \<longrightarrow> combine_tail (res, cur) = [indices]"
proof -
  have ne: "[] \<notin> set res"
    using assms(2) closed_group_nonempty by blast
  show "concat (combine_tail (res, cur)) = indices"
    using assms(1)
    by (cases res rule: rev_cases) (auto simp: combine_tail_def)
  show "[] \<notin> set (combine_tail (res, cur))"
    using ne by (cases res rule: rev_cases) (auto simp: combine_tail_def)
  show "\<forall>g \<in> set (butlast (combine_tail (res, cur))). closed_group sizes base_rows g"
    using assms(2) by (cases res rule: rev_cases) (auto simp: combine_tail_def dest: in_set_butlastD)
  show "combine_tail (res, cur) \<noteq> [] \<longrightarrow>
          (\<exists>g tl. last (combine_tail (res, cur)) = g @ tl \<and> open_group sizes base_rows tl
             \<and> (closed_group sizes base_rows g \<or> g = [] \<and> combine_tail (res, cur) = [tl]))"
  proof (cases res rule: rev_cases)
    case Nil
    then show ?thesis
      using assms(3) by (auto simp: combine_tail_def)
  next
    case (snoc rs r)
    then have "closed_group sizes base_rows r"
      using assms(2) by simp
    then show ?thesis
      using snoc assms(3) open_group_Nil[of sizes base_rows]
      by (cases "cur = []") (auto simp: combine_tail_def intro: exI[of _ r])
  qed
  show "res = [] \<longrightarrow> indices \<noteq> [] \<longrightarrow> combine_tail (res, cur) = [indices]"
    using assms(1) by (auto simp: combine_tail_def)
qed

lemma group_size_nonneg: "\<forall>i \<in> set g. 0 \<le> sizes i \<Longrightarrow> 0 \<le> group_size sizes g"
  unfolding group_size_def by (induction g) simp_all

lemma group_size_concat_ge:
  "g \<in> set res \<Longrightarrow> \<forall>i \<in> set (concat res). 0 \<le> sizes i
     \<Longrightarrow> group_size sizes g \<le> group_size sizes (concat res)"
proof (induction res)
  case Nil
  then show ?case by simp
next
  case (Cons r rs)
  have r: "0 \<le> group_size sizes r"
    using Cons.prems(2) by (intro group_size_nonneg) simp
  have rs: "0 \<le> group_size sizes (concat rs)"
    using Cons.prems(2) by (intro group_size_nonneg) simp
  show ?case
  proof (cases "g = r")
    case True
    then show ?thesis
      using rs by (simp add: group_size_append)
  next
    case False
    with Cons.prems have "g \<in> set rs" "\<forall>i \<in> set (concat rs). 0 \<le> sizes i"
      by simp_all
    from Cons.IH[OF this] r show ?thesis
      by (simp add: group_size_append)
  qed
qed

lemma no_closed_group_when_small:
  assumes "concat res @ cur = indices"
    and "\<forall>g \<in> set res. closed_group sizes base_rows g"
    and "\<forall>i \<in> set indices. 0 \<le> sizes i"
    and "group_size sizes indices < base_rows"
  shows "res = []"
proof (rule ccontr)
  assume "res \<noteq> []"
  then obtain g where g: "g \<in> set res"
    by (cases res) auto
  have nn: "\<forall>i \<in> set (concat res). 0 \<le> sizes i" "\<forall>i \<in> set cur. 0 \<le> sizes i"
    using assms(1,3) by auto
  have "base_rows \<le> group_size sizes g"
    using assms(2) g by (simp add: closed_group_def)
  also have "\<dots> \<le> group_size sizes (concat res)"
    using group_size_concat_ge[OF g nn(1)] .
  also have "\<dots> \<le> group_size sizes (concat res) + group_size sizes cur"
    using group_size_nonneg[OF nn(2)] by simp
  also have "\<dots> = group_size sizes indices"
    using assms(1) by (simp add: group_size_append[symmetric])
  finally show False
    using assms(4) by simp
qed

lemma group_size_permutation:
  assumes "mset indices = mset [0..<length scalar_info]"
    and "\<forall>b \<in> set scalar_info. length b < 2 ^ 31"
  shows "group_size (bucket_sizes scalar_info) indices = (\<Sum>b\<leftarrow>scalar_info. int (length b))"
proof -
  have "group_size (bucket_sizes scalar_info) indices
          = sum_mset (image_mset (bucket_sizes scalar_info) (mset indices))"
    by (simp add: group_size_def flip: sum_mset_sum_list)
  also have "\<dots> = sum_list (map (bucket_sizes scalar_info) [0..<length scalar_info])"
    by (simp add: assms(1) flip: sum_mset_sum_list)
  also have "map (bucket_sizes scalar_info) [0..<length scalar_info]
          = map (\<lambda>i. int (length (scalar_info ! i))) [0..<length scalar_info]"
    using assms(2) by (auto intro!: bucket_sizes_eq)
  also have "\<dots> = map (\<lambda>b. int (length b)) (map (\<lambda>i. scalar_info ! i) [0..<length scalar_info])"
    by simp
  also have "\<dots> = map (\<lambda>b. int (length b)) scalar_info"
    by (simp only: map_nth)
  finally show ?thesis .
qed

lemma bucket_sizes_nonneg:
  assumes "mset indices = mset [0..<length scalar_info]"
    and "\<forall>b \<in> set scalar_info. length b < 2 ^ 31"
  shows "\<forall>i \<in> set indices. 0 \<le> bucket_sizes scalar_info i"
proof
  fix i assume "i \<in> set indices"
  then have "i < length scalar_info"
    using assms(1) by (metis atLeastLessThan_iff mset_eq_setD set_upt)
  then show "0 \<le> bucket_sizes scalar_info i"
    using assms(2) by (simp add: bucket_sizes_eq)
qed

lemma train_partitions_tmp:
  "train_partitions f si i gs nd = Some (r, nd')
     \<Longrightarrow> tmp_combined_scalar_ids nd' = tmp_combined_scalar_ids nd
       \<and> data_format nd' = data_format nd"
proof (induction gs arbitrary: i nd)
  case Nil
  then show ?case by simp
next
  case (Cons ids rest)
  from Cons.prems show ?case
    by (auto simp: Let_def split: option.splits if_splits prod.splits attempt.splits
        dest!: Cons.IH)
qed

lemma TrainIndexByScalarInfo_tmp:
  "TrainIndexByScalarInfo f si rows nd = Some (r, nd')
     \<Longrightarrow> tmp_combined_scalar_ids nd' = tmp_combined_scalar_ids nd"
  unfolding TrainIndexByScalarInfo_def Let_def
  by (drule train_partitions_tmp) simp

lemma train_whole_tmp:
  "train_whole f rows nd = (r, nd') \<Longrightarrow> tmp_combined_scalar_ids nd' = tmp_combined_scalar_ids nd"
  by (auto simp: train_whole_def split: attempt.splits option.splits)

lemma train_whole_or_by_scalar_info_tmp:
  assumes "train_whole_or_by_scalar_info f sim rows whole nd = Some (r, nd')"
    and "tmp_combined_scalar_ids (snd whole) = tmp_combined_scalar_ids nd"
  shows "tmp_combined_scalar_ids nd' = tmp_combined_scalar_ids nd"
  using assms
  by (auto simp: train_whole_or_by_scalar_info_def split: if_splits list.splits
      dest: TrainIndexByScalarInfo_tmp)

lemma snd_train_whole_tmp:
  "tmp_combined_scalar_ids (snd (train_whole f rows nd)) = tmp_combined_scalar_ids nd"
  using train_whole_tmp[of f rows nd] by (cases "train_whole f rows nd") simp

lemma TrainInternal_base_rows:
  assumes "Str2FaissMetricType lib (metric_type cfg) \<noteq> None" and "1 < length scalar_info"
  shows "HNSWFlat_TrainInternal ext lib cfg [(fid, scalar_info)] rows nd = Some (r, nd')
           \<Longrightarrow> tmp_combined_scalar_ids nd' = combine_partitions (std_sort lib) scalar_info 128"
    and "HNSWSQ_TrainInternal ext lib cfg [(fid, scalar_info)] rows nd = Some (r, nd')
           \<Longrightarrow> get_sq_quantizer_type lib (sq_type cfg) \<noteq> None
           \<Longrightarrow> tmp_combined_scalar_ids nd' = combine_partitions (std_sort lib) scalar_info 128"
    and "HNSWPQ_TrainInternal ext lib cfg [(fid, scalar_info)] rows nd = Some (r, nd')
           \<Longrightarrow> nbits cfg < 31 \<Longrightarrow> 2 ^ nbits cfg \<le> rows
           \<Longrightarrow> tmp_combined_scalar_ids nd'
               = combine_partitions (std_sort lib) scalar_info (2 ^ nbits cfg)"
    and "HNSWPRQ_TrainInternal ext lib cfg [(fid, scalar_info)] rows nd = Some (r, nd')
           \<Longrightarrow> nbits cfg < 31 \<Longrightarrow> 2 ^ nbits cfg \<le> rows
           \<Longrightarrow> tmp_combined_scalar_ids nd'
               = combine_partitions (std_sort lib) scalar_info (2 ^ nbits cfg)"
proof -
  show "HNSWFlat_TrainInternal ext lib cfg [(fid, scalar_info)] rows nd = Some (r, nd')
           \<Longrightarrow> tmp_combined_scalar_ids nd' = combine_partitions (std_sort lib) scalar_info 128"
    using assms
    by (auto simp: HNSWFlat_TrainInternal_def Let_def snd_train_whole_tmp
        dest!: train_whole_or_by_scalar_info_tmp)
  show "HNSWSQ_TrainInternal ext lib cfg [(fid, scalar_info)] rows nd = Some (r, nd')
           \<Longrightarrow> get_sq_quantizer_type lib (sq_type cfg) \<noteq> None
           \<Longrightarrow> tmp_combined_scalar_ids nd' = combine_partitions (std_sort lib) scalar_info 128"
    using assms
    by (auto simp: HNSWSQ_TrainInternal_def Let_def snd_train_whole_tmp
        dest!: train_whole_or_by_scalar_info_tmp)
  have sh: "nbits cfg < 31 \<Longrightarrow> 2 ^ nbits cfg \<le> rows \<Longrightarrow> \<not> int rows < 2 ^ nbits cfg"
  proof -
    assume a: "nbits cfg < 31" "2 ^ nbits cfg \<le> rows"
    have "int (2 ^ nbits cfg) \<le> int rows"
      using a(2) by (simp only: of_nat_le_iff)
    then show ?thesis
      by simp
  qed
  show "HNSWPQ_TrainInternal ext lib cfg [(fid, scalar_info)] rows nd = Some (r, nd')
           \<Longrightarrow> nbits cfg < 31 \<Longrightarrow> 2 ^ nbits cfg \<le> rows
           \<Longrightarrow> tmp_combined_scalar_ids nd'
               = combine_partitions (std_sort lib) scalar_info (2 ^ nbits cfg)"
    using assms sh
    by (auto simp: HNSWPQ_TrainInternal_def Let_def snd_train_whole_tmp shl_1_eq
        dest!: train_whole_or_by_scalar_info_tmp)
  show "HNSWPRQ_TrainInternal ext lib cfg [(fid, scalar_info)] rows nd = Some (r, nd')
           \<Longrightarrow> nbits cfg < 31 \<Longrightarrow> 2 ^ nbits cfg \<le> rows
           \<Longrightarrow> tmp_combined_scalar_ids nd'
               = combine_partitions (std_sort lib) scalar_info (2 ^ nbits cfg)"
    using assms sh
    by (auto simp: HNSWPRQ_TrainInternal_def Let_def snd_train_whole_tmp shl_1_eq
        dest!: train_whole_or_by_scalar_info_tmp)
qed

text \<open>
  Claim C2. Let \<open>indices\<close> be the bucket indices as \<^verbatim>\<open>std::sort\<close> leaves them: every
  bucket once, by ascending size. The groups of \<^verbatim>\<open>combine_partitions\<close> are consecutive
  runs of \<open>indices\<close>, none empty. Every group but the last reached \<open>base_rows\<close> with
  the bucket that closed it and not before. The last group is such a group followed by
  a tail that never reached \<open>base_rows\<close> (the tail may be empty), or, if no group was
  ever closed, the tail alone. If the buckets together have fewer than \<open>base_rows\<close>
  rows, the result is the single group of all buckets. \<^verbatim>\<open>TrainInternal\<close> calls the
  function with \<open>base_rows = 128\<close> in the flat and the SQ node and with
  \<open>base_rows = 2 ^ nbits\<close> in the PQ and the PRQ node.
\<close>

theorem combine_partitions_rule:
  assumes srt: "std_sort_contract (std_sort lib)"
  shows "(let sizes = bucket_sizes scalar_info;
              indices = std_sort lib sizes [0..<length scalar_info];
              res = combine_partitions (std_sort lib) scalar_info base_rows
          in mset indices = mset [0..<length scalar_info] \<and> sorted (map sizes indices)
             \<and> concat res = indices \<and> [] \<notin> set res
             \<and> (\<forall>g \<in> set (butlast res). closed_group sizes base_rows g)
             \<and> (res \<noteq> [] \<longrightarrow>
                  (\<exists>g tl. last res = g @ tl \<and> open_group sizes base_rows tl
                     \<and> (closed_group sizes base_rows g \<or> g = [] \<and> res = [tl])))
             \<and> ((\<forall>b \<in> set scalar_info. length b < 2 ^ 31) \<and> scalar_info \<noteq> []
                  \<and> (\<Sum>b\<leftarrow>scalar_info. int (length b)) < base_rows
                \<longrightarrow> res = [indices]))
       \<and> (Str2FaissMetricType lib (metric_type cfg) \<noteq> None \<and> 1 < length scalar_info \<longrightarrow>
            (\<forall>r nd'. HNSWFlat_TrainInternal ext lib cfg [(fid, scalar_info)] rows nd = Some (r, nd')
               \<longrightarrow> tmp_combined_scalar_ids nd'
                     = combine_partitions (std_sort lib) scalar_info 128)
          \<and> (\<forall>r nd'. HNSWSQ_TrainInternal ext lib cfg [(fid, scalar_info)] rows nd = Some (r, nd')
                 \<and> get_sq_quantizer_type lib (sq_type cfg) \<noteq> None
               \<longrightarrow> tmp_combined_scalar_ids nd'
                     = combine_partitions (std_sort lib) scalar_info 128)
          \<and> (nbits cfg < 31 \<and> 2 ^ nbits cfg \<le> rows \<longrightarrow>
                (\<forall>r nd'. HNSWPQ_TrainInternal ext lib cfg [(fid, scalar_info)] rows nd
                            = Some (r, nd')
                   \<longrightarrow> tmp_combined_scalar_ids nd'
                         = combine_partitions (std_sort lib) scalar_info (2 ^ nbits cfg))
              \<and> (\<forall>r nd'. HNSWPRQ_TrainInternal ext lib cfg [(fid, scalar_info)] rows nd
                            = Some (r, nd')
                   \<longrightarrow> tmp_combined_scalar_ids nd'
                         = combine_partitions (std_sort lib) scalar_info (2 ^ nbits cfg))))"
proof -
  define sizes where "sizes = bucket_sizes scalar_info"
  define indices where "indices = std_sort lib sizes [0..<length scalar_info]"
  define res where "res = combine_partitions (std_sort lib) scalar_info base_rows"
  obtain res' cur' where l: "combine_loop sizes base_rows indices [] [] 0 = (res', cur')"
    by (cases "combine_loop sizes base_rows indices [] [] 0") blast
  have res: "res = combine_tail (res', cur')"
    by (simp add: res_def combine_partitions_def Let_def l flip: sizes_def indices_def)
  have perm: "mset indices = mset [0..<length scalar_info]"
    and sorted: "sorted (map sizes indices)"
    using srt by (simp_all add: std_sort_contract_def indices_def)
  have inv: "concat res' @ cur' = indices"
    "\<forall>g \<in> set res'. closed_group sizes base_rows g" "open_group sizes base_rows cur'"
    using combine_loop_inv[OF l, simplified]
    by (simp_all add: group_size_def open_group_Nil)
  note tl = combine_tail_groups[OF inv, folded res]
  have small: "res = [indices]"
    if a: "\<forall>b \<in> set scalar_info. length b < 2 ^ 31" "scalar_info \<noteq> []"
       "(\<Sum>b\<leftarrow>scalar_info. int (length b)) < base_rows"
  proof -
    have "group_size sizes indices < base_rows"
      using group_size_permutation[OF perm a(1)] a(3) by (simp add: sizes_def)
    moreover have "\<forall>i \<in> set indices. 0 \<le> sizes i"
      using bucket_sizes_nonneg[OF perm a(1)] by (simp add: sizes_def)
    ultimately have "res' = []"
      using no_closed_group_when_small[OF inv(1,2)] by blast
    moreover have "indices \<noteq> []"
      using perm a(2) by (metis length_0_conv mset_eq_length length_upt diff_zero)
    ultimately show ?thesis
      using tl(5) by simp
  qed
  have first: "mset indices = mset [0..<length scalar_info] \<and> sorted (map sizes indices)
             \<and> concat res = indices \<and> [] \<notin> set res
             \<and> (\<forall>g \<in> set (butlast res). closed_group sizes base_rows g)
             \<and> (res \<noteq> [] \<longrightarrow>
                  (\<exists>g tl. last res = g @ tl \<and> open_group sizes base_rows tl
                     \<and> (closed_group sizes base_rows g \<or> g = [] \<and> res = [tl])))
             \<and> ((\<forall>b \<in> set scalar_info. length b < 2 ^ 31) \<and> scalar_info \<noteq> []
                  \<and> (\<Sum>b\<leftarrow>scalar_info. int (length b)) < base_rows
                \<longrightarrow> res = [indices])"
    using perm sorted tl(1-4) small by blast
  have second: "Str2FaissMetricType lib (metric_type cfg) \<noteq> None \<and> 1 < length scalar_info \<longrightarrow>
            (\<forall>r nd'. HNSWFlat_TrainInternal ext lib cfg [(fid, scalar_info)] rows nd = Some (r, nd')
               \<longrightarrow> tmp_combined_scalar_ids nd'
                     = combine_partitions (std_sort lib) scalar_info 128)
          \<and> (\<forall>r nd'. HNSWSQ_TrainInternal ext lib cfg [(fid, scalar_info)] rows nd = Some (r, nd')
                 \<and> get_sq_quantizer_type lib (sq_type cfg) \<noteq> None
               \<longrightarrow> tmp_combined_scalar_ids nd'
                     = combine_partitions (std_sort lib) scalar_info 128)
          \<and> (nbits cfg < 31 \<and> 2 ^ nbits cfg \<le> rows \<longrightarrow>
                (\<forall>r nd'. HNSWPQ_TrainInternal ext lib cfg [(fid, scalar_info)] rows nd
                            = Some (r, nd')
                   \<longrightarrow> tmp_combined_scalar_ids nd'
                         = combine_partitions (std_sort lib) scalar_info (2 ^ nbits cfg))
              \<and> (\<forall>r nd'. HNSWPRQ_TrainInternal ext lib cfg [(fid, scalar_info)] rows nd
                            = Some (r, nd')
                   \<longrightarrow> tmp_combined_scalar_ids nd'
                         = combine_partitions (std_sort lib) scalar_info (2 ^ nbits cfg)))"
    using TrainInternal_base_rows[of lib cfg scalar_info ext fid rows nd] by blast
  from first second show ?thesis
    unfolding Let_def sizes_def[symmetric] indices_def[symmetric] res_def[symmetric] by blast
qed

lemma example_std_sort_contract: "std_sort_contract (std_sort example_train_lib)"
  by (simp add: std_sort_contract_def example_train_lib_def)

lemma bucket_sizes_Cons:
  "bucket_sizes (b # bs) 0 = sint (word_of_nat (length b) :: 32 word)"
  "bucket_sizes (b # bs) (Suc i) = bucket_sizes bs i"
  by (simp_all add: bucket_sizes_def)

theorem combine_partitions_rule_witness:
  "concat (combine_partitions sort_key [[1, 2], [3, 4, 5], [1]] 3) = [2, 0, 1]
   \<and> combine_partitions sort_key [[0, 2, 4], [1, 3]] 128 = [[1, 0]]
   \<and> tmp_combined_scalar_ids trained_example
       = combine_partitions sort_key [[0, 2, 4], [1, 3]] (2 ^ 1)"
proof -
  have t: "HNSWPQ_TrainInternal example_externals example_train_lib
             (example_train_config\<lparr>nbits := 1\<rparr>) [(7, [[0, 2, 4], [1, 3]])] 5 (new_node fp32)
           = Some (Returned success, trained_example)"
    by code_simp
  have h: "Str2FaissMetricType example_train_lib
             (metric_type (example_train_config\<lparr>nbits := 1\<rparr>)) \<noteq> None
           \<and> 1 < length [[0, 2, 4], [1, 3 :: u32]]"
    "nbits (example_train_config\<lparr>nbits := 1\<rparr>) < 31
      \<and> 2 ^ nbits (example_train_config\<lparr>nbits := 1\<rparr>) \<le> (5 :: nat)"
    by (simp_all add: example_train_lib_def example_train_config_def)
  have n1: "nbits (example_train_config\<lparr>nbits := 1\<rparr>) = 1"
    by simp
  have s1: "sort_key (bucket_sizes [[1, 2], [3, 4, 5], [1]]) [0..<length [[1, 2], [3, 4, 5], [1 :: u32]]]
              = [2, 0, 1]"
    by (simp add: upt_rec bucket_sizes_def)
  have s2: "sort_key (bucket_sizes [[0, 2, 4], [1, 3]]) [0..<length [[0, 2, 4], [1, 3 :: u32]]]
              = [1, 0]"
    by (simp add: upt_rec bucket_sizes_def)
  have sk: "std_sort example_train_lib = sort_key"
    by (simp add: example_train_lib_def)
  have "concat (combine_partitions (std_sort example_train_lib) [[1, 2], [3, 4, 5], [1]] 3)
          = std_sort example_train_lib (bucket_sizes [[1, 2], [3, 4, 5], [1]])
              [0..<length [[1, 2], [3, 4, 5], [1 :: u32]]]"
    using combine_partitions_rule[OF example_std_sort_contract,
        of "[[1, 2], [3, 4, 5], [1]]" 3]
    unfolding Let_def by blast
  then have a: "concat (combine_partitions sort_key [[1, 2], [3, 4, 5], [1]] 3) = [2, 0, 1]"
    unfolding sk s1 .
  have "(\<forall>b \<in> set [[0, 2, 4], [1, 3 :: u32]]. length b < 2 ^ 31)
          \<and> [[0, 2, 4], [1, 3 :: u32]] \<noteq> []
          \<and> (\<Sum>b\<leftarrow>[[0, 2, 4], [1, 3 :: u32]]. int (length b)) < 128"
    by simp
  then have "combine_partitions (std_sort example_train_lib) [[0, 2, 4], [1, 3]] 128
          = [std_sort example_train_lib (bucket_sizes [[0, 2, 4], [1, 3]])
               [0..<length [[0, 2, 4], [1, 3 :: u32]]]]"
    using combine_partitions_rule[OF example_std_sort_contract,
        of "[[0, 2, 4], [1, 3]]" 128]
    unfolding Let_def by blast
  then have b: "combine_partitions sort_key [[0, 2, 4], [1, 3]] 128 = [[1, 0]]"
    unfolding sk s2 .
  have "tmp_combined_scalar_ids trained_example
          = combine_partitions (std_sort example_train_lib) [[0, 2, 4], [1, 3]]
              (2 ^ nbits (example_train_config\<lparr>nbits := 1\<rparr>))"
    using combine_partitions_rule[OF example_std_sort_contract,
        of "[[0, 2, 4], [1, 3]]" _ "example_train_config\<lparr>nbits := 1\<rparr>" example_externals 7 5
           "new_node fp32"] h t
    by blast
  then have c: "tmp_combined_scalar_ids trained_example
          = combine_partitions sort_key [[0, 2, 4], [1, 3]] (2 ^ 1)"
    unfolding sk n1 .
  from a b c show ?thesis by simp
qed



section \<open>Theorems: the invariants after training by scalar info\<close>














lemma unat_of_nat_32: "n < 2 ^ 32 \<Longrightarrow> unat (word_of_nat n :: 32 word) = n"
  by (simp add: unat_of_nat)





lemma plan_partitions_one:
  "plan_partitions srt base_rows [(fid, si)] tmp
     = (if 1 < length si then combine_partitions srt si base_rows else [])"
  by simp


lemma whole_tmp:
  "tmp_combined_scalar_ids
     (snd (if b then train_whole f rows nd1 else (Returned invalid_args, nd1)))
   = tmp_combined_scalar_ids nd1"
  by (simp add: snd_train_whole_tmp)





section \<open>Theorems: the header of a partitioned index\<close>

lemma read_labels_write_labels:
  assumes "codec_round_trip c" and "\<forall>l \<in> set xs. length l < 2 ^ 64"
    and "length ls = j + length xs"
  shows "read_labels c (length xs) j ls (write_labels c xs @ rest)
           = (Returned (), take j ls @ xs, rest)"
  using assms(2,3)
proof (induction xs arbitrary: j ls)
  case Nil
  then show ?case by simp
next
  case (Cons x xs)
  have r: "read_vector c (write_vector c x @ write_labels c xs @ rest)
             = Returned (x, write_labels c xs @ rest)"
    using assms(1) Cons.prems(1) by (simp add: codec_round_trip_def)
  have "read_labels c (length xs) (Suc j) (ls[j := x]) (write_labels c xs @ rest)
          = (Returned (), take (Suc j) (ls[j := x]) @ xs, rest)"
    using Cons.prems by (intro Cons.IH) simp_all
  moreover have "take (Suc j) (ls[j := x]) = take j ls @ [x]"
    using Cons.prems(2) by (simp add: take_Suc_conv_app_nth)
  ultimately show ?case
    using r by simp
qed


lemma write_labels_concat: "write_labels c xs = concat (map (write_vector c) xs)"
  by (induction xs) simp_all

text \<open>
  Claim C3. With primitives that read back what they write, \<^verbatim>\<open>readHeader\<close> on the
  bytes of \<^verbatim>\<open>writeHeader\<close> (and whatever follows them) restores \<^verbatim>\<open>labels\<close>,
  \<^verbatim>\<open>index_rows_sum\<close> and \<^verbatim>\<open>label_to_internal_offset\<close>, leaves the stream at what
  follows, and returns the number of sub-indexes. The header is the version 0, the
  number of sub-indexes and the number of label vectors, each a 32-bit value, then the
  label vectors, then \<^verbatim>\<open>index_rows_sum\<close> and \<^verbatim>\<open>label_to_internal_offset\<close>, each a
  length-prefixed vector. The two counts are below \<open>2 ^ 32\<close> (they are written as 32-bit
  values) and the sizes of the vectors below \<open>2 ^ 64\<close>.
\<close>

theorem header_round_trip:
  assumes "codec_round_trip c"
    and "length (indexes nd) < 2 ^ 32" and "length (labels nd) < 2 ^ 32"
    and "\<forall>l \<in> set (labels nd). length l < 2 ^ 64"
    and "length (index_rows_sum nd) < 2 ^ 64"
    and "length (label_to_internal_offset nd) < 2 ^ 64"
  shows "readHeader c nd0 (writeHeader c nd @ rest) =
           (Returned (word_of_nat (length (indexes nd))),
            nd0\<lparr>labels := labels nd, index_rows_sum := index_rows_sum nd,
                label_to_internal_offset := label_to_internal_offset nd\<rparr>,
            rest)
       \<and> unat (word_of_nat (length (indexes nd)) :: u32) = length (indexes nd)
       \<and> writeHeader c nd =
           write_value c 0 @ write_value c (word_of_nat (length (indexes nd)))
           @ write_value c (word_of_nat (length (labels nd)))
           @ concat (map (write_vector c) (labels nd))
           @ write_vector c (index_rows_sum nd)
           @ write_vector c (label_to_internal_offset nd)"
proof -
  have rv: "read_value c (write_value c v @ f) = Returned (v, f)" for v f
    using assms(1) by (simp add: codec_round_trip_def)
  have rvec: "read_vector c (write_vector c xs @ f) = Returned (xs, f)"
    if "length xs < 2 ^ 64" for xs f
    using assms(1) that by (simp add: codec_round_trip_def)
  have n: "unat (word_of_nat (length (labels nd)) :: u32) = length (labels nd)"
    using assms(3) by (simp add: unat_of_nat_32)
  have m: "unat (word_of_nat (length (indexes nd)) :: u32) = length (indexes nd)"
    using assms(2) by (simp add: unat_of_nat_32)
  let ?tail = "write_vector c (index_rows_sum nd)
                 @ write_vector c (label_to_internal_offset nd) @ rest"
  have rl: "read_labels c (length (labels nd)) 0
              (resize (length (labels nd)) [] (labels nd0)) (write_labels c (labels nd) @ ?tail)
            = (Returned (), labels nd, ?tail)"
    using read_labels_write_labels[OF assms(1,4),
        of "resize (length (labels nd)) [] (labels nd0)" 0 ?tail]
    by (simp add: resize_def)
  have "readHeader c nd0 (writeHeader c nd @ rest) =
           (Returned (word_of_nat (length (indexes nd))),
            nd0\<lparr>labels := labels nd, index_rows_sum := index_rows_sum nd,
                label_to_internal_offset := label_to_internal_offset nd\<rparr>,
            rest)"
    by (simp add: readHeader_def writeHeader_def Let_def rv n rl rvec[OF assms(5)]
        rvec[OF assms(6)])
  moreover have "writeHeader c nd =
           write_value c 0 @ write_value c (word_of_nat (length (indexes nd)))
           @ write_value c (word_of_nat (length (labels nd)))
           @ concat (map (write_vector c) (labels nd))
           @ write_vector c (index_rows_sum nd)
           @ write_vector c (label_to_internal_offset nd)"
    by (simp add: writeHeader_def Let_def write_labels_concat)
  ultimately show ?thesis
    using m by simp
qed

lemma length_le_bytes: "length (le_bytes n x) = n"
  by (induction n arbitrary: x) simp_all

lemma le_value_le_bytes: "le_value (le_bytes n x) = x mod 256 ^ n"
proof (induction n arbitrary: x)
  case 0
  then show ?case by simp
next
  case (Suc n)
  have "unat (word_of_nat (x mod 256) :: byte) = x mod 256"
    by (simp add: unat_of_nat)
  then have "le_value (le_bytes (Suc n) x) = x mod 256 + 256 * ((x div 256) mod 256 ^ n)"
    using Suc.IH by simp
  also have "\<dots> = x mod 256 ^ Suc n"
    by (simp add: mod_mult2_eq)
  finally show ?case .
qed

lemma le_read_value_round_trip: "le_read_value (le_bytes 4 (unat v) @ rest) = Returned (v, rest)"
proof -
  have "unat v < 256 ^ 4"
    using unsigned_less[of v, where 'a=nat] by simp
  then have "le_value (le_bytes 4 (unat v)) = unat v"
    by (simp only: le_value_le_bytes mod_less)
  then show ?thesis
    by (simp add: le_read_value_def length_le_bytes)
qed

lemma le_read_values_round_trip:
  "le_read_values (length xs) (concat (map (\<lambda>v. le_bytes 4 (unat v)) xs) @ rest)
     = Returned (xs, rest)"
  by (induction xs) (simp_all add: le_read_value_round_trip del: le_bytes.simps)

lemma le_codec_round_trip: "codec_round_trip le_codec"
proof -
  have "le_value (take 8 (le_bytes 8 n @ f)) = n" if "n < 2 ^ 64" for n f
  proof -
    have "take 8 (le_bytes 8 n @ f) = le_bytes 8 n"
      by (simp add: length_le_bytes del: le_bytes.simps)
    moreover have "n < 256 ^ 8"
      using that by simp
    ultimately show ?thesis
      by (simp only: le_value_le_bytes mod_less)
  qed
  then show ?thesis
    by (simp add: codec_round_trip_def le_codec_def le_read_value_round_trip length_le_bytes
        le_read_values_round_trip del: le_bytes.simps)
qed

theorem header_round_trip_witness:
  "readHeader le_codec (new_node fp32) (writeHeader le_codec mv_example @ [1, 2, 3]) =
     (Returned 2,
      (new_node fp32)\<lparr>labels := [[1, 3], [0, 2, 4]], index_rows_sum := [0, 2, 5],
                        label_to_internal_offset := [2, 0, 3, 1, 4]\<rparr>,
      [1, 2, 3])"
proof -
  have h: "length (indexes mv_example) < 2 ^ 32" "length (labels mv_example) < 2 ^ 32"
    "\<forall>l \<in> set (labels mv_example). length l < 2 ^ 64"
    "length (index_rows_sum mv_example) < 2 ^ 64"
    "length (label_to_internal_offset mv_example) < 2 ^ 64"
    by (simp_all add: mv_example_def)
  have f: "labels mv_example = [[1, 3], [0, 2, 4]]" "index_rows_sum mv_example = [0, 2, 5]"
    "label_to_internal_offset mv_example = [2, 0, 3, 1, 4]"
    "(word_of_nat (length (indexes mv_example)) :: u32) = 2"
    by (simp_all add: mv_example_def)
  from header_round_trip[OF le_codec_round_trip h, of "new_node fp32" "[1, 2, 3]",
      THEN conjunct1]
  show ?thesis
    unfolding f .
qed


end
